theory Spec2Isabelle
  imports Complex_Main
begin

section \<open>The feeding-log pipeline of \<^verbatim>\<open>src/pipeline/data_pipeline.py\<close>\<close>

text \<open>
  The development embeds \<^verbatim>\<open>DataPipeline\<close> (load, clean, validate, transform and
  aggregate) and the schema \<^verbatim>\<open>FeedingData\<close> of \<^verbatim>\<open>src/models/children.py\<close>.
  A data frame is a header with rows of cells; Python exceptions are values of the type
  \<open>error\<close>; the frame of valid records lives in an explicit store, because the
  transformer changes it in place while two fields of the pipeline object refer to it.

  Conventions of the model:
  \<^item> a cell is text, an integer, a timestamp, the missing timestamp \<open>NaT\<close> or the missing
    value \<open>Missing\<close> (NaN); non-integral numbers do not occur in cells;
  \<^item> strings are byte strings: \<^verbatim>\<open>\d\<close> and \<^verbatim>\<open>str.lower\<close> are modelled on ASCII;
  \<^item> a timestamp is a naive \<^verbatim>\<open>datetime64[ns]\<close>: an integer count of nanoseconds since
    the epoch, unbounded here;
  \<^item> the volume column is integral after cleaning and volumes are below \<open>2^53\<close>, so the
    floating-point volumes and the sums over them are exact and are modelled by integers;
    the mean and the age in months are modelled by exact rationals;
  \<^item> the percentage of a label is computed in binary floating point, as the code does:
    \<open>float64\<close> rounds a rational to the nearest double.
\<close>

subsection \<open>Exceptions, cells and frames\<close>

datatype error =
    FileNotFoundError
  | ValueError
  | KeyError string
  | AttributeError
  | OverflowError
  | ZeroDivisionError
  | TypeError
  | ReaderError

type_synonym timestamp = int

datatype cell = Str string | Num int | Tstamp timestamp | NaT | Missing

record table =
  columns :: "string list"
  rows :: "cell list list"

text \<open>\<^verbatim>\<open>df.to_dict('records')\<close>: one dictionary per row, as an association list in column
  order.\<close>

definition to_dict_records :: "table \<Rightarrow> (string \<times> cell) list list" where
  "to_dict_records df = map (\<lambda>r. zip (columns df) r) (rows df)"

text \<open>Lookup in a Python dictionary built from the pairs in order: the last pair of a
  key wins.\<close>

definition dict_get :: "(string \<times> cell) list \<Rightarrow> string \<Rightarrow> cell option" where
  "dict_get d k = map_of (rev d) k"

subsection \<open>Strings\<close>

definition is_digit :: "char \<Rightarrow> bool" where
  "is_digit c = (48 \<le> (of_char c :: nat) \<and> (of_char c :: nat) \<le> 57)"

definition digit_value :: "char \<Rightarrow> int" where
  "digit_value c = int (of_char c) - 48"

definition lower_char :: "char \<Rightarrow> char" where
  "lower_char c =
     (if 65 \<le> (of_char c :: nat) \<and> (of_char c :: nat) \<le> 90
      then char_of ((of_char c :: nat) + 32) else c)"

definition lower :: "string \<Rightarrow> string" where
  "lower s = map lower_char s"

definition digit_char :: "nat \<Rightarrow> char" where
  "digit_char d = char_of (48 + d)"

fun str_nat :: "nat \<Rightarrow> string" where
  "str_nat n = (if n < 10 then [digit_char n] else str_nat (n div 10) @ [digit_char (n mod 10)])"

declare str_nat.simps [simp del]

definition str_int :: "int \<Rightarrow> string" where
  "str_int i = (if i < 0 then CHR ''-'' # str_nat (nat (- i)) else str_nat (nat i))"

text \<open>\<^verbatim>\<open>"\n".join(lines)\<close>.\<close>

fun join_lines :: "string list \<Rightarrow> string" where
  "join_lines [] = []"
| "join_lines [l] = l"
| "join_lines (l # m # ls) = l @ [CHR 0x0A] @ join_lines (m # ls)"

subsection \<open>Loader\<close>

text \<open>
  The file system and the readers of the table library are the environment: whether a
  path exists, and what \<^verbatim>\<open>read_excel\<close> and \<^verbatim>\<open>read_csv\<close> return for it (a frame, or
  an exception of their own).
\<close>

record env =
  path_exists :: "string \<Rightarrow> bool"
  read_excel :: "string \<Rightarrow> error + table"
  read_csv :: "string \<Rightarrow> error + table"

text \<open>\<^verbatim>\<open>Path.name\<close> and \<^verbatim>\<open>Path.suffix\<close>: the final component, and its part from the last
  dot on when that dot is neither its first nor its last character.\<close>

definition path_name :: "string \<Rightarrow> string" where
  "path_name p = rev (takeWhile (\<lambda>c. c \<noteq> CHR ''/'') (rev p))"

definition suffix :: "string \<Rightarrow> string" where
  "suffix p =
     (let nm = path_name p; ext = rev (takeWhile (\<lambda>c. c \<noteq> CHR ''.'') (rev nm)) in
      if CHR ''.'' \<notin> set nm then []
      else if ext = [] \<or> length ext + 1 = length nm then []
      else CHR ''.'' # ext)"

text \<open>The body of \<^verbatim>\<open>_load_data\<close> up to the assignment of \<^verbatim>\<open>self.raw_data\<close>.\<close>

definition read_source :: "env \<Rightarrow> string \<Rightarrow> error + table" where
  "read_source e path =
     (if \<not> path_exists e path then Inl FileNotFoundError
      else let sfx = lower (suffix path) in
        if sfx = ''.xls'' \<or> sfx = ''.xlsx'' then read_excel e path
        else if sfx = ''.csv'' then read_csv e path
        else Inl ValueError)"

subsection \<open>Cleaner\<close>

text \<open>\<^verbatim>\<open>drop_duplicates()\<close> keeps the first of equal rows.\<close>

definition drop_duplicates :: "'a list \<Rightarrow> 'a list" where
  "drop_duplicates xs = rev (remdups (rev xs))"

text \<open>\<^verbatim>\<open>drop(columns=c)\<close> raises \<^verbatim>\<open>KeyError\<close> when no column has the label.\<close>

definition drop_column :: "string \<Rightarrow> table \<Rightarrow> error + table" where
  "drop_column c df =
     (if c \<notin> set (columns df) then Inl (KeyError c)
      else Inr \<lparr> columns = filter (\<lambda>k. k \<noteq> c) (columns df),
                 rows = map (\<lambda>r. map snd (filter (\<lambda>(k, v). k \<noteq> c) (zip (columns df) r)))
                          (rows df) \<rparr>)"

definition rename_column :: "string \<Rightarrow> string" where
  "rename_column c =
     (if c = ''details'' then ''feed_volume_ml''
      else if c = ''start'' then ''feed_start_time'' else c)"

text \<open>\<^verbatim>\<open>re.search(r'(\d+)', s)\<close>: the first maximal run of digits.\<close>

definition first_digit_run :: "string \<Rightarrow> string" where
  "first_digit_run s = takeWhile is_digit (dropWhile (\<lambda>c. \<not> is_digit c) s)"

text \<open>\<^verbatim>\<open>.str.extract(r'(\d+)').fillna('0')\<close> on one cell: a cell that is not text, and
  text without a digit, give NaN and then \<^verbatim>\<open>'0'\<close>.\<close>

definition extract_digits :: "cell \<Rightarrow> string" where
  "extract_digits c =
     (case c of
        Str s \<Rightarrow> (if first_digit_run s = [] then ''0'' else first_digit_run s)
      | _ \<Rightarrow> ''0'')"

definition int_of_digits :: "string \<Rightarrow> int" where
  "int_of_digits s = foldl (\<lambda>a c. 10 * a + digit_value c) 0 s"

text \<open>\<^verbatim>\<open>astype(int)\<close> on a string of digits: the value, when it fits the 64-bit integer
  column; \<^verbatim>\<open>OverflowError\<close> otherwise.\<close>

definition astype_int :: "string \<Rightarrow> error + int" where
  "astype_int s =
     (if int_of_digits s < 2 ^ 63 then Inr (int_of_digits s) else Inl OverflowError)"

text \<open>The \<^verbatim>\<open>.str\<close> accessor exists on a column of text or of mixed content, and on a
  column without rows; a column that holds only numbers, only timestamps or only
  missing values has a numeric or datetime dtype and the accessor raises
  \<^verbatim>\<open>AttributeError\<close>.\<close>

definition has_str_accessor :: "cell list \<Rightarrow> bool" where
  "has_str_accessor cs =
     (cs = [] \<or> (\<exists>c \<in> set cs. case c of Str s \<Rightarrow> True | _ \<Rightarrow> False)
      \<or> ((\<exists>c \<in> set cs. case c of Num n \<Rightarrow> True | _ \<Rightarrow> False)
         \<and> (\<exists>c \<in> set cs. case c of Tstamp t \<Rightarrow> True | _ \<Rightarrow> False)))"

text \<open>The cell of a row under a label that occurs once in the header.\<close>

definition cell_at :: "string list \<Rightarrow> string \<Rightarrow> cell list \<Rightarrow> cell" where
  "cell_at cols k r = (case map_of (zip cols r) k of Some v \<Rightarrow> v | None \<Rightarrow> Missing)"

text \<open>All rows converted, or the first exception.\<close>

fun sequence :: "(error + 'a) list \<Rightarrow> error + 'a list" where
  "sequence [] = Inr []"
| "sequence (x # xs) =
     (case x of
        Inl e \<Rightarrow> Inl e
      | Inr v \<Rightarrow> (case sequence xs of Inl e \<Rightarrow> Inl e | Inr vs \<Rightarrow> Inr (v # vs)))"

definition set_volume :: "string list \<Rightarrow> cell list \<Rightarrow> error + cell list" where
  "set_volume cols r =
     (case astype_int (extract_digits (cell_at cols ''feed_volume_ml'' r)) of
        Inl e \<Rightarrow> Inl e
      | Inr n \<Rightarrow> Inr (map (\<lambda>(k, v). if k = ''feed_volume_ml'' then Num n else v) (zip cols r)))"

text \<open>\<^verbatim>\<open>_clean_data\<close>. Selecting \<^verbatim>\<open>df['feed_volume_ml']\<close> raises \<^verbatim>\<open>KeyError\<close> without
  such a column and gives a frame, which has no \<^verbatim>\<open>.str\<close>, with several.\<close>

definition clean_data :: "table \<Rightarrow> error + table" where
  "clean_data df =
     (case drop_column ''Finish'' (df\<lparr>rows := drop_duplicates (rows df)\<rparr>) of
        Inl e \<Rightarrow> Inl e
      | Inr d \<Rightarrow>
          let cols = map rename_column (map lower (columns d)) in
          if ''feed_volume_ml'' \<notin> set cols then Inl (KeyError ''feed_volume_ml'')
          else if length (filter (\<lambda>k. k = ''feed_volume_ml'') cols) \<noteq> 1 then Inl AttributeError
          else if \<not> has_str_accessor (map (cell_at cols ''feed_volume_ml'') (rows d))
            then Inl AttributeError
          else (case sequence (map (set_volume cols) (rows d)) of
                  Inl e \<Rightarrow> Inl e
                | Inr rs \<Rightarrow> Inr \<lparr> columns = cols, rows = rs \<rparr>))"

subsection \<open>Timestamps\<close>

definition ns_per_second :: int where "ns_per_second = 1000000000"
definition ns_per_minute :: int where "ns_per_minute = 60 * ns_per_second"
definition ns_per_hour :: int where "ns_per_hour = 60 * ns_per_minute"
definition ns_per_day :: int where "ns_per_day = 24 * ns_per_hour"

text \<open>The timestamp of second \<open>s\<close> of minute \<open>m\<close> of hour \<open>h\<close> of the day numbered \<open>d\<close>
  (days since 1970-01-01), and \<^verbatim>\<open>pd.Timestamp(date)\<close>: midnight of the day.\<close>

definition Timestamp :: "int \<Rightarrow> int \<Rightarrow> int \<Rightarrow> int \<Rightarrow> timestamp" where
  "Timestamp d h m s = d * ns_per_day + h * ns_per_hour + m * ns_per_minute + s * ns_per_second"

definition Timestamp_of_date :: "int \<Rightarrow> timestamp" where
  "Timestamp_of_date d = d * ns_per_day"

text \<open>\<^verbatim>\<open>.date()\<close> as a day number; the difference of two dates is the difference of their
  day numbers.\<close>

definition date :: "timestamp \<Rightarrow> int" where
  "date t = t div ns_per_day"

record time_of_day =
  hour :: int
  minute :: int
  second :: int
  microsecond :: int

text \<open>\<^verbatim>\<open>df.index.time\<close>.\<close>

definition index_time :: "timestamp \<Rightarrow> time_of_day" where
  "index_time t =
     (let r = t mod ns_per_day in
      \<lparr> hour = r div ns_per_hour,
        minute = (r mod ns_per_hour) div ns_per_minute,
        second = (r mod ns_per_minute) div ns_per_second,
        microsecond = (r mod ns_per_second) div 1000 \<rparr>)"

text \<open>\<^verbatim>\<open>Timedelta.days\<close>: the whole days of a difference of timestamps, rounded down.\<close>

definition timedelta_days :: "int \<Rightarrow> int" where
  "timedelta_days delta = delta div ns_per_day"

definition two_digits :: "int \<Rightarrow> string" where
  "two_digits n = (if n < 10 then CHR ''0'' # str_int n else str_int n)"

text \<open>\<^verbatim>\<open>strftime('%I:%M %p')\<close>.\<close>

definition strftime_IMp :: "timestamp \<Rightarrow> string" where
  "strftime_IMp t =
     (let x = index_time t; h12 = (if hour x mod 12 = 0 then 12 else hour x mod 12) in
      two_digits h12 @ '':'' @ two_digits (minute x) @ '' '' @ (if hour x < 12 then ''AM'' else ''PM''))"

subsection \<open>The schema \<^verbatim>\<open>FeedingData\<close> and the validator\<close>

datatype Activity = FEEDING

datatype ActivityType = LEFT | RIGTH | BOTTLE

record feed_record =
  feed_start_time :: timestamp
  activity :: Activity
  type :: ActivityType
  feed_volume_ml :: int
  units :: string

text \<open>
  The coercions of the schema library that the repository does not contain are a
  parameter: how a cell that is neither a timestamp nor \<open>NaT\<close> is read as a datetime, and
  how a cell that is not an integer is read as a number (a whole number in this model;
  the cleaner leaves integers only in the volume column). Each returns the library's
  message or the value. Everything the schema itself declares (the enumerations,
  \<^verbatim>\<open>ge=0\<close>, the default of \<^verbatim>\<open>units\<close>, required fields) is modelled below.
\<close>

record coercions =
  lax_datetime :: "cell \<Rightarrow> string + timestamp"
  lax_float :: "cell \<Rightarrow> string + int"

text \<open>An instance of the schema. \<open>NaT\<close> is an instance of \<^verbatim>\<open>datetime\<close> and the schema
  accepts it as it is: the start time of an instance is a timestamp or \<open>NaT\<close> (\<open>None\<close>).\<close>

record feeding_instance =
  inst_feed_start_time :: "timestamp option"
  inst_activity :: Activity
  inst_type :: ActivityType
  inst_feed_volume_ml :: int
  inst_units :: string

definition field_required :: string where
  "field_required = ''Field required''"

definition ge_message :: string where
  "ge_message = ''Input should be greater than or equal to 0''"

definition validate_datetime :: "coercions \<Rightarrow> cell \<Rightarrow> string + timestamp option" where
  "validate_datetime lib c =
     (case c of
        Tstamp t \<Rightarrow> Inr (Some t)
      | NaT \<Rightarrow> Inr None
      | _ \<Rightarrow> (case lax_datetime lib c of Inl m \<Rightarrow> Inl m | Inr t \<Rightarrow> Inr (Some t)))"

definition validate_activity :: "cell \<Rightarrow> string + Activity" where
  "validate_activity c =
     (if c = Str ''Feeding'' then Inr FEEDING else Inl (''Input should be 'Feeding'' @ [CHR 0x27]))"

definition validate_type :: "cell \<Rightarrow> string + ActivityType" where
  "validate_type c =
     (if c = Str ''Left'' then Inr LEFT
      else if c = Str ''Right'' then Inr RIGTH
      else if c = Str ''Bottle'' then Inr BOTTLE
      else Inl (''Input should be 'Left', 'Right' or 'Bottle'' @ [CHR 0x27]))"

text \<open>\<^verbatim>\<open>feed_volume_ml: float = Field(ge=0)\<close>: the number, then the bound.\<close>

definition validate_volume :: "coercions \<Rightarrow> cell \<Rightarrow> string + int" where
  "validate_volume lib c =
     (case (case c of Num n \<Rightarrow> Inr n | _ \<Rightarrow> lax_float lib c) of
        Inl m \<Rightarrow> Inl m
      | Inr v \<Rightarrow> (if 0 \<le> v then Inr v else Inl ge_message))"

definition validate_units :: "cell \<Rightarrow> string + string" where
  "validate_units c = (case c of Str s \<Rightarrow> Inr s | _ \<Rightarrow> Inl ''Input should be a valid string'')"

text \<open>A required field: the key must be present.\<close>

definition required :: "(cell \<Rightarrow> string + 'a) \<Rightarrow> cell option \<Rightarrow> string + 'a" where
  "required v co = (case co of None \<Rightarrow> Inl field_required | Some c \<Rightarrow> v c)"

text \<open>The errors of one field, as \<^verbatim>\<open>(loc, msg)\<close>.\<close>

definition field_errors :: "string \<Rightarrow> string + 'a \<Rightarrow> (string \<times> string) list" where
  "field_errors loc res = (case res of Inl m \<Rightarrow> [(loc, m)] | Inr v \<Rightarrow> [])"

text \<open>\<^verbatim>\<open>FeedingData(**record_dict)\<close>: the fields are validated in the order of their
  declaration and all errors are collected (\<^verbatim>\<open>ValidationError\<close>, \<open>Inl\<close>); keys that are
  not fields are ignored.\<close>

definition FeedingData :: "coercions \<Rightarrow> (string \<times> cell) list \<Rightarrow> (string \<times> string) list + feeding_instance" where
  "FeedingData lib d =
     (let st = required (validate_datetime lib) (dict_get d ''feed_start_time'');
          ac = required validate_activity (dict_get d ''activity'');
          ty = required validate_type (dict_get d ''type'');
          vo = required (validate_volume lib) (dict_get d ''feed_volume_ml'');
          un = (case dict_get d ''units'' of None \<Rightarrow> Inr ''ml'' | Some c \<Rightarrow> validate_units c);
          errs = field_errors ''feed_start_time'' st @ field_errors ''activity'' ac
               @ field_errors ''type'' ty @ field_errors ''feed_volume_ml'' vo
               @ field_errors ''units'' un
      in case (st, ac, ty, vo, un) of
           (Inr t, Inr a, Inr y, Inr v, Inr u) \<Rightarrow>
             Inr \<lparr> inst_feed_start_time = t, inst_activity = a, inst_type = y,
                   inst_feed_volume_ml = v, inst_units = u \<rparr>
         | _ \<Rightarrow> Inl errs)"

text \<open>\<^verbatim>\<open>model_dump(mode='json')\<close>: the dictionary of the instance, the start time in ISO
  format. It raises \<^verbatim>\<open>TypeError\<close> for the start time \<open>NaT\<close>.\<close>

definition model_dump :: "feeding_instance \<Rightarrow> error + feed_record" where
  "model_dump x =
     (case inst_feed_start_time x of
        None \<Rightarrow> Inl TypeError
      | Some t \<Rightarrow>
          Inr \<lparr> feed_start_time = t, activity = inst_activity x, type = inst_type x,
                feed_volume_ml = inst_feed_volume_ml x, units = inst_units x \<rparr>)"

record error_record =
  original :: "(string \<times> cell) list"
  total_errors :: nat
  error_details :: string

text \<open>\<^verbatim>\<open>f"{i}) {err['loc'][0]}: {err['msg']}"\<close> for \<^verbatim>\<open>i\<close> counting from \<^verbatim>\<open>i0\<close>.\<close>

fun numbered :: "nat \<Rightarrow> (string \<times> string) list \<Rightarrow> string list" where
  "numbered i0 [] = []"
| "numbered i0 ((loc, msg) # es) = (str_nat i0 @ '') '' @ loc @ '': '' @ msg) # numbered (Suc i0) es"

text \<open>The \<^verbatim>\<open>except ValidationError\<close> branch: the row's dictionary extended by the two
  keys (which would replace columns of the same labels).\<close>

definition make_error_record :: "(string \<times> cell) list \<Rightarrow> (string \<times> string) list \<Rightarrow> error_record" where
  "make_error_record d errs =
     \<lparr> original = d, total_errors = length errs, error_details = join_lines (numbered 1 errs) \<rparr>"

text \<open>The loop of \<^verbatim>\<open>_validate_inputs\<close> over the records, with its two lists. Its
  \<^verbatim>\<open>try\<close> catches \<^verbatim>\<open>ValidationError\<close> only: the \<^verbatim>\<open>TypeError\<close> of \<^verbatim>\<open>model_dump\<close> leaves the
  loop and the method.\<close>

fun validate_loop ::
  "coercions \<Rightarrow> (string \<times> cell) list list \<Rightarrow> feed_record list \<Rightarrow> error_record list
     \<Rightarrow> error + feed_record list \<times> error_record list" where
  "validate_loop lib [] feeding_list error_records = Inr (feeding_list, error_records)"
| "validate_loop lib (d # ds) feeding_list error_records =
     (case FeedingData lib d of
        Inr feed_record \<Rightarrow>
          (case model_dump feed_record of
             Inl err \<Rightarrow> Inl err
           | Inr dumped \<Rightarrow> validate_loop lib ds (feeding_list @ [dumped]) error_records)
      | Inl errs \<Rightarrow>
          validate_loop lib ds feeding_list (error_records @ [make_error_record d errs]))"

text \<open>The ISO format of a start time has a fraction of a second exactly when its
  microsecond is not 0. \<^verbatim>\<open>pd.to_datetime\<close> over the list of these strings takes the
  format of the first one and raises \<^verbatim>\<open>ValueError\<close> at a string of the other format;
  otherwise the index is the list of the start times.\<close>

definition iso_fraction :: "timestamp \<Rightarrow> bool" where
  "iso_fraction t = (microsecond (index_time t) \<noteq> 0)"

definition to_datetime :: "timestamp list \<Rightarrow> error + timestamp list" where
  "to_datetime ts =
     (case ts of
        [] \<Rightarrow> Inr []
      | t # us \<Rightarrow>
          if list_all (\<lambda>u. iso_fraction u = iso_fraction t) us then Inr ts else Inl ValueError)"

text \<open>The frames the validator builds: the valid records indexed by their start time in
  the order of the rows, and the error records. The printed summary is not modelled.\<close>

definition validate_records ::
  "coercions \<Rightarrow> table \<Rightarrow> error + feed_record list \<times> error_record list" where
  "validate_records lib df =
     (case validate_loop lib (to_dict_records df) [] [] of
        Inl err \<Rightarrow> Inl err
      | Inr (feeding_list, error_records) \<Rightarrow>
          (case to_datetime (map feed_start_time feeding_list) of
             Inl err \<Rightarrow> Inl err
           | Inr idx \<Rightarrow> Inr (feeding_list, error_records)))"

text \<open>What one row contributes to each of the two frames, and whether the loop raises at
  it.\<close>

definition row_valid :: "coercions \<Rightarrow> (string \<times> cell) list \<Rightarrow> feed_record list" where
  "row_valid lib d =
     (case FeedingData lib d of
        Inr x \<Rightarrow> (case model_dump x of Inr r \<Rightarrow> [r] | Inl err \<Rightarrow> [])
      | Inl errs \<Rightarrow> [])"

definition row_error :: "coercions \<Rightarrow> (string \<times> cell) list \<Rightarrow> error_record list" where
  "row_error lib d =
     (case FeedingData lib d of Inr x \<Rightarrow> [] | Inl errs \<Rightarrow> [make_error_record d errs])"

definition row_raises :: "coercions \<Rightarrow> (string \<times> cell) list \<Rightarrow> bool" where
  "row_raises lib d =
     (case FeedingData lib d of
        Inr x \<Rightarrow> (case model_dump x of Inr r \<Rightarrow> False | Inl err \<Rightarrow> True)
      | Inl errs \<Rightarrow> False)"

text \<open>The fields of a row other than the volume satisfy the schema, with a start time
  that is a timestamp.\<close>

definition other_fields_valid :: "coercions \<Rightarrow> (string \<times> cell) list \<Rightarrow> bool" where
  "other_fields_valid lib d =
     ((case required (validate_datetime lib) (dict_get d ''feed_start_time'') of
         Inr (Some t) \<Rightarrow> True | _ \<Rightarrow> False)
      \<and> field_errors ''activity'' (required validate_activity (dict_get d ''activity'')) = []
      \<and> field_errors ''type'' (required validate_type (dict_get d ''type'')) = []
      \<and> field_errors ''units''
            (case dict_get d ''units'' of None \<Rightarrow> Inr ''ml'' | Some c \<Rightarrow> validate_units c) = [])"

subsection \<open>Feature transformer\<close>

datatype period = Night | Day

record enriched_record = feed_record +
  name :: string
  age_in_weeks :: int
  age_in_days :: int
  time :: time_of_day
  time_str :: string
  night_or_day :: period

text \<open>\<^verbatim>\<open>lambda x: x.hour + x.minute / 60\<close>. The floating-point value is below, at or
  above each of the two thresholds exactly when the rational is: the quotient by 60 of a
  minute is either exactly one half or at least one sixtieth away from it.\<close>

definition fractional_hour :: "time_of_day \<Rightarrow> rat" where
  "fractional_hour x = of_int (hour x) + of_int (minute x) / 60"

text \<open>\<^verbatim>\<open>np.where((hours >= 22.5) | (hours < 6.5), 'Night', 'Day')\<close>.\<close>

definition night_or_day_of :: "rat \<Rightarrow> period" where
  "night_or_day_of hours = (if hours \<ge> 22.5 \<or> hours < 6.5 then Night else Day)"

text \<open>The columns \<^verbatim>\<open>_transform_data\<close> adds to one row; \<open>nm\<close> and \<open>dob\<close> are
  \<^verbatim>\<open>self.name\<close> and \<^verbatim>\<open>self.dob\<close>.\<close>

definition enrich :: "string \<Rightarrow> timestamp \<Rightarrow> feed_record \<Rightarrow> enriched_record" where
  "enrich nm dob r =
     (let age = feed_start_time r - dob in
      feed_record.extend r
        \<lparr> name = nm,
          age_in_weeks = timedelta_days age div 7,
          age_in_days = timedelta_days age,
          time = index_time (feed_start_time r),
          time_str = strftime_IMp (feed_start_time r),
          night_or_day = night_or_day_of (fractional_hour (index_time (feed_start_time r))) \<rparr>)"

subsection \<open>Aggregator: the daily frame\<close>

record daily_row =
  day :: int
  daily_name :: "string option"
  daily_age_in_days :: "int option"
  daily_age_in_weeks :: "int option"
  daily_feed_volume_ml :: int
  feeds_per_day :: nat
  average_intake_per_feed :: "rat option"
  age_in_months :: "rat option"

text \<open>\<^verbatim>\<open>first\<close> of a column over a bin: its first value, NaN over an empty bin.\<close>

definition first_of :: "('a \<Rightarrow> 'b) \<Rightarrow> 'a list \<Rightarrow> 'b option" where
  "first_of f xs = (case xs of [] \<Rightarrow> None | x # _ \<Rightarrow> Some (f x))"

text \<open>One row of \<^verbatim>\<open>resample('D').agg(...)\<close>: \<open>sum\<close> and \<open>count\<close> of an empty bin are 0,
  \<open>first\<close> and \<open>mean\<close> are NaN (\<open>None\<close>).\<close>

definition aggregate_day :: "int \<Rightarrow> enriched_record list \<Rightarrow> daily_row" where
  "aggregate_day d bin =
     \<lparr> day = d,
       daily_name = first_of name bin,
       daily_age_in_days = first_of age_in_days bin,
       daily_age_in_weeks = first_of age_in_weeks bin,
       daily_feed_volume_ml = sum_list (map feed_volume_ml bin),
       feeds_per_day = length bin,
       average_intake_per_feed =
         (if bin = [] then None
          else Some (of_int (sum_list (map feed_volume_ml bin)) / of_nat (length bin))),
       age_in_months = None \<rparr>"

text \<open>\<^verbatim>\<open>resample('D')\<close>: the rows in the order of their index (a stable sort), one bin
  for every calendar day from the first day of the index to its last day, with or
  without rows.\<close>

definition resample_D :: "enriched_record list \<Rightarrow> (int \<times> enriched_record list) list" where
  "resample_D df =
     (if df = [] then []
      else let sorted_df = sort_key feed_start_time df;
               first_day = date (feed_start_time (hd sorted_df));
               last_day = date (feed_start_time (last sorted_df))
           in map (\<lambda>d. (d, filter (\<lambda>r. date (feed_start_time r) = d) sorted_df))
                  [first_day..last_day])"

text \<open>\<^verbatim>\<open>sort_values(by='age_in_days')\<close>: ascending, rows without a value last in their
  order. The order of rows with equal keys is that of a stable sort here.\<close>

definition sort_values_by_age :: "daily_row list \<Rightarrow> daily_row list" where
  "sort_values_by_age ds =
     sort_key (\<lambda>r. the (daily_age_in_days r)) (filter (\<lambda>r. daily_age_in_days r \<noteq> None) ds)
     @ filter (\<lambda>r. daily_age_in_days r = None) ds"

text \<open>The daily frame of \<^verbatim>\<open>_transform_data\<close>: aggregate, drop the last row, add
  \<^verbatim>\<open>age_in_months\<close>, sort.\<close>

definition daily_fd :: "enriched_record list \<Rightarrow> daily_row list" where
  "daily_fd df =
     sort_values_by_age
       (map (\<lambda>r. r\<lparr>age_in_months := map_option (\<lambda>a. of_int a / 30.4375) (daily_age_in_days r)\<rparr>)
          (butlast (map (\<lambda>(d, bin). aggregate_day d bin) (resample_D df))))"

text \<open>For the statements about the daily frame: the calendar days on which a frame has
  rows, and the rows of one day in the order of the index.\<close>

definition days_present :: "enriched_record list \<Rightarrow> int set" where
  "days_present df = (\<lambda>r. date (feed_start_time r)) ` set df"

definition day_bin :: "enriched_record list \<Rightarrow> int \<Rightarrow> enriched_record list" where
  "day_bin df d = filter (\<lambda>r. date (feed_start_time r) = d) (sort_key feed_start_time df)"

subsection \<open>Aggregator: the weekly frame\<close>

record weekly_row =
  weekly_age_in_weeks :: int
  weekly_night_or_day :: period
  weekly_name :: string
  total_feed_volume_ml :: int
  feeds_count :: nat

text \<open>The keys of \<^verbatim>\<open>groupby(['age_in_weeks', 'night_or_day'])\<close> in the order of the
  result: by week, and \<^verbatim>\<open>'Day'\<close> before \<^verbatim>\<open>'Night'\<close>. Only pairs that occur have a
  group.\<close>

definition group_keys :: "enriched_record list \<Rightarrow> (int \<times> period) list" where
  "group_keys df =
     filter (\<lambda>(w, p). \<exists>r \<in> set df. age_in_weeks r = w \<and> night_or_day r = p)
       (concat (map (\<lambda>w. [(w, Day), (w, Night)]) (sort (remdups (map age_in_weeks df)))))"

definition weekly_groups :: "enriched_record list \<Rightarrow> weekly_row list" where
  "weekly_groups df =
     map (\<lambda>(w, p).
            let g = filter (\<lambda>r. age_in_weeks r = w \<and> night_or_day r = p) df in
            \<lparr> weekly_age_in_weeks = w, weekly_night_or_day = p,
              weekly_name = name (hd g),
              total_feed_volume_ml = sum_list (map feed_volume_ml g),
              feeds_count = length g \<rparr>)
         (group_keys df)"

text \<open>\<^verbatim>\<open>groupby('age_in_weeks')['total_feed_volume_ml'].transform('sum')\<close> at one row.\<close>

definition weekly_total :: "weekly_row list \<Rightarrow> weekly_row \<Rightarrow> int" where
  "weekly_total ws r =
     sum_list (map total_feed_volume_ml
       (filter (\<lambda>x. weekly_age_in_weeks x = weekly_age_in_weeks r) ws))"

text \<open>The format \<^verbatim>\<open>,.0f\<close> of a whole number: its digits in groups of three.\<close>

fun group3 :: "string \<Rightarrow> string" where
  "group3 (a # b # c # d # ds) = a # b # c # CHR '','' # group3 (d # ds)"
| "group3 ds = ds"

definition format_thousands :: "int \<Rightarrow> string" where
  "format_thousands v =
     (if v < 0 then CHR ''-'' # rev (group3 (rev (str_nat (nat (- v)))))
      else rev (group3 (rev (str_nat (nat v)))))"

text \<open>The format \<^verbatim>\<open>.0f\<close> rounds a float to the nearest whole number, a tie to the even
  one.\<close>

definition round_half_even :: "rat \<Rightarrow> int" where
  "round_half_even q =
     (let f = \<lfloor>q\<rfloor>; d = q - of_int f in
      if d < 1/2 then f else if 1/2 < d then f + 1 else if even f then f else f + 1)"

text \<open>Binary64 arithmetic: the result of an operation is the exact result rounded to the
  nearest double, a tie to the even significand. A double of the normal range is a
  whole number of units \<open>2^e\<close> with a significand from \<open>2^52\<close> up to \<open>2^53\<close>, so a positive
  rational is scaled by powers of 2 into that range and rounded there. Overflow and
  subnormal numbers do not occur at percentages.\<close>

function round_ge :: "rat \<Rightarrow> rat" where
  "round_ge x = (if 2 ^ 53 \<le> x then 2 * round_ge (x / 2) else of_int (round_half_even x))"
  by pat_completeness auto
termination
proof (relation "measure (\<lambda>x. nat \<lfloor>x\<rfloor>)")
  show "wf (measure (\<lambda>x::rat. nat \<lfloor>x\<rfloor>))" by simp
next
  fix x :: rat
  assume a: "2 ^ 53 \<le> x"
  have "\<lfloor>x / 2\<rfloor> < \<lfloor>x\<rfloor>"
  proof -
    have "x / 2 < x - 1" using a by simp
    then have "x / 2 < of_int \<lfloor>x\<rfloor>" by linarith
    then show ?thesis by (simp add: floor_less_iff)
  qed
  moreover have "0 < \<lfloor>x\<rfloor>" using a by (simp add: floor_less_iff less_floor_iff)
  ultimately show "(x / 2, x) \<in> measure (\<lambda>x. nat \<lfloor>x\<rfloor>)" by simp
qed

function round_lt :: "rat \<Rightarrow> rat" where
  "round_lt x = (if 0 < x \<and> x < 2 ^ 52 then round_lt (2 * x) / 2 else round_ge x)"
  by pat_completeness auto
termination
proof (relation "measure (\<lambda>x. nat \<lceil>2 ^ 52 / x\<rceil>)")
  show "wf (measure (\<lambda>x::rat. nat \<lceil>2 ^ 52 / x\<rceil>))" by simp
next
  fix x :: rat
  assume a: "0 < x \<and> x < 2 ^ 52"
  let ?y = "2 ^ 52 / x"
  have y: "1 < ?y" using a by simp
  have "2 ^ 52 / (2 * x) = ?y / 2" by simp
  moreover have "\<lceil>?y / 2\<rceil> < \<lceil>?y\<rceil>"
  proof -
    have "?y / 2 \<le> of_int \<lceil>?y\<rceil> / 2" by (simp add: divide_right_mono)
    moreover have "2 \<le> \<lceil>?y\<rceil>" using y by (simp add: le_ceiling_iff)
    then have "(of_int \<lceil>?y\<rceil> :: rat) / 2 \<le> of_int (\<lceil>?y\<rceil> - 1)" by simp
    ultimately have "?y / 2 \<le> of_int (\<lceil>?y\<rceil> - 1)" by linarith
    then have "\<lceil>?y / 2\<rceil> \<le> \<lceil>?y\<rceil> - 1" by (simp only: ceiling_le_iff)
    then show ?thesis by simp
  qed
  moreover have "0 < \<lceil>?y\<rceil>" using a by simp
  ultimately show "(2 * x, x) \<in> measure (\<lambda>x. nat \<lceil>2 ^ 52 / x\<rceil>)" using a by simp
qed

declare round_ge.simps [simp del] round_lt.simps [simp del]

definition float64 :: "rat \<Rightarrow> rat" where
  "float64 x = (if x = 0 then 0 else if x < 0 then - round_lt (- x) else round_lt x)"

text \<open>The exact percentage, and \<^verbatim>\<open>(vol/tot)*100\<close> as the code computes it.\<close>

definition percentage :: "int \<Rightarrow> int \<Rightarrow> rat" where
  "percentage vol tot = (of_int vol / of_int tot) * 100"

definition float_percentage :: "int \<Rightarrow> int \<Rightarrow> rat" where
  "float_percentage vol tot = float64 (float64 (of_int vol / of_int tot) * 100)"

text \<open>\<^verbatim>\<open>f"{vol:,.0f}mL<br>({(vol/tot)*100:.0f}%)"\<close>; the division of Python floats
  raises \<^verbatim>\<open>ZeroDivisionError\<close> when the total is zero.\<close>

definition text_label_of :: "int \<Rightarrow> int \<Rightarrow> error + string" where
  "text_label_of vol tot =
     (if tot = 0 then Inl ZeroDivisionError
      else Inr (format_thousands vol @ ''mL<br>(''
                @ str_int (round_half_even (float_percentage vol tot)) @ ''%)''))"

record labelled_row = weekly_row +
  text_label :: string

definition weekly_df :: "enriched_record list \<Rightarrow> error + labelled_row list" where
  "weekly_df df =
     (let ws = weekly_groups df in
      sequence (map (\<lambda>r. case text_label_of (total_feed_volume_ml r) (weekly_total ws r) of
                             Inl e \<Rightarrow> Inl e
                           | Inr l \<Rightarrow> Inr (weekly_row.extend r \<lparr> text_label = l \<rparr>)) ws))"

text \<open>For the statements about the weekly frame: the volume of the rows of one week and
  one period.\<close>

definition group_volume :: "enriched_record list \<Rightarrow> int \<times> period \<Rightarrow> int" where
  "group_volume df k = sum_list (map feed_volume_ml
     (filter (\<lambda>r. age_in_weeks r = fst k \<and> night_or_day r = snd k) df))"

subsection \<open>The pipeline object and the store\<close>

text \<open>
  The frame of valid records is the one frame that is changed after a field of the
  object refers to it, so it lives in a store and the fields hold its address; the
  other frames are never changed once assigned and the fields hold them by value. A
  frame in the store has the columns of the schema, or these and the columns of the
  transformer.
\<close>

datatype frame = Validated "feed_record list" | Transformed "enriched_record list"

record pipeline =
  self_name :: string
  file_name :: string
  self_dob :: timestamp
  full_file_path :: string
  raw_data :: "table option"
  daily_data :: "daily_row list option"
  weekly_data :: "labelled_row list option"
  validated_data :: "nat option"
  transformed_data :: "nat option"
  input_data_errors :: "error_record list option"

record world =
  store :: "frame list"
  self :: pipeline

text \<open>The operator \<^verbatim>\<open>/\<close> of paths: an absolute right operand replaces the left one.\<close>

definition path_join :: "string \<Rightarrow> string \<Rightarrow> string" where
  "path_join a b = (if b \<noteq> [] \<and> hd b = CHR ''/'' then b else a @ ''/'' @ b)"

text \<open>\<^verbatim>\<open>__init__\<close>, with the working directory: every frame is \<^verbatim>\<open>None\<close>.\<close>

definition DataPipeline :: "string \<Rightarrow> string \<Rightarrow> string \<Rightarrow> string \<Rightarrow> timestamp \<Rightarrow> pipeline" where
  "DataPipeline cwd input_dir_path nm file dob =
     \<lparr> self_name = nm, file_name = file, self_dob = dob,
       full_file_path = path_join (path_join cwd input_dir_path) file,
       raw_data = None, daily_data = None, weekly_data = None, validated_data = None,
       transformed_data = None, input_data_errors = None \<rparr>"

definition alloc :: "frame \<Rightarrow> frame list \<Rightarrow> nat \<times> frame list" where
  "alloc f st = (length st, st @ [f])"

text \<open>The index and the schema columns of the frame at an address (an address that
  \<open>alloc\<close> has not handed out reads as a frame without rows).\<close>

definition records_at :: "frame list \<Rightarrow> nat \<Rightarrow> feed_record list" where
  "records_at st a =
     (if a < length st
      then (case st ! a of Validated rs \<Rightarrow> rs | Transformed es \<Rightarrow> map feed_record.truncate es)
      else [])"

definition load_data :: "env \<Rightarrow> world \<Rightarrow> (error + table) \<times> world" where
  "load_data e w =
     (case read_source e (full_file_path (self w)) of
        Inl err \<Rightarrow> (Inl err, w)
      | Inr df \<Rightarrow> (Inr df, w\<lparr>self := (self w)\<lparr>raw_data := Some df\<rparr>\<rparr>))"

text \<open>\<^verbatim>\<open>_validate_inputs\<close>: builds both frames, assigns both fields and returns the
  frame of valid records; an exception leaves the object as it was.\<close>

definition validate_inputs :: "coercions \<Rightarrow> table \<Rightarrow> world \<Rightarrow> (error + nat) \<times> world" where
  "validate_inputs lib df w =
     (case validate_records lib df of
        Inl err \<Rightarrow> (Inl err, w)
      | Inr (feeding_list, error_records) \<Rightarrow>
          let (a, st) = alloc (Validated feeding_list) (store w)
          in (Inr a, \<lparr> store = st,
                       self = (self w)\<lparr>input_data_errors := Some error_records,
                                       validated_data := Some a\<rparr> \<rparr>))"

text \<open>\<^verbatim>\<open>_transform_data\<close> on the frame at address \<open>a\<close>: the columns are assigned to that
  frame itself and \<^verbatim>\<open>self.transformed_data\<close> is set to it; then the aggregates are
  computed and, if neither raises, assigned. Aggregation over a frame built from no
  records raises \<^verbatim>\<open>ValueError\<close>.\<close>

definition transform_data :: "nat \<Rightarrow> world \<Rightarrow> (error + nat) \<times> world" where
  "transform_data a w =
     (let df = map (enrich (self_name (self w)) (self_dob (self w))) (records_at (store w) a);
          w1 = \<lparr> store = (store w)[a := Transformed df],
                 self = (self w)\<lparr>transformed_data := Some a\<rparr> \<rparr>
      in if df = [] then (Inl ValueError, w1)
         else (case weekly_df df of
                 Inl err \<Rightarrow> (Inl err, w1)
               | Inr wk \<Rightarrow>
                   (Inr a, w1\<lparr>self := (self w1)\<lparr>daily_data := Some (daily_fd df),
                                                weekly_data := Some wk\<rparr>\<rparr>)))"

text \<open>\<^verbatim>\<open>process\<close>: the four stages in order; an exception of a stage ends the run with
  the object as that stage left it.\<close>

definition process :: "env \<Rightarrow> coercions \<Rightarrow> world \<Rightarrow> error option \<times> world" where
  "process e lib w =
     (case load_data e w of
        (Inl err, w1) \<Rightarrow> (Some err, w1)
      | (Inr raw, w1) \<Rightarrow>
          (case clean_data raw of
             Inl err \<Rightarrow> (Some err, w1)
           | Inr cleaned \<Rightarrow>
               (case validate_inputs lib cleaned w1 of
                  (Inl err, w2) \<Rightarrow> (Some err, w2)
                | (Inr validated, w2) \<Rightarrow>
                    (case transform_data validated w2 of
                       (Inl err, w3) \<Rightarrow> (Some err, w3)
                     | (Inr _, w3) \<Rightarrow> (None, w3)))))"

subsection \<open>Example inputs\<close>

text \<open>A log of four rows, two of them equal, with its cleaned frame; 19723 is the day
  number of 2024-01-01 and 19692 that of 2023-12-01.\<close>

definition example_raw :: table where
  "example_raw = \<lparr> columns = [''Start'', ''Finish'', ''Activity'', ''Type'', ''Details''],
     rows = [[Tstamp (Timestamp 19723 8 0 0), Tstamp (Timestamp 19723 8 20 0), Str ''Feeding'', Str ''Bottle'', Str ''150ml''],
             [Tstamp (Timestamp 19723 23 0 0), Missing, Str ''Feeding'', Str ''Bottle'', Str ''100ml''],
             [Tstamp (Timestamp 19723 23 0 0), Missing, Str ''Feeding'', Str ''Bottle'', Str ''100ml''],
             [Tstamp (Timestamp 19724 7 0 0), Missing, Str ''Feeding'', Str ''Left'', Str ''-'']] \<rparr>"

definition example_cleaned :: table where
  "example_cleaned = \<lparr> columns = [''feed_start_time'', ''activity'', ''type'', ''feed_volume_ml''],
     rows = [[Tstamp (Timestamp 19723 8 0 0), Str ''Feeding'', Str ''Bottle'', Num 150],
             [Tstamp (Timestamp 19723 23 0 0), Str ''Feeding'', Str ''Bottle'', Num 100],
             [Tstamp (Timestamp 19724 7 0 0), Str ''Feeding'', Str ''Left'', Num 0]] \<rparr>"

text \<open>Coercions that accept nothing beyond timestamps and integers.\<close>

definition strict_coercions :: coercions where
  "strict_coercions = \<lparr> lax_datetime = (\<lambda>c. Inl ''Input should be a valid datetime''),
            lax_float = (\<lambda>c. Inl ''Input should be a valid number'') \<rparr>"

text \<open>A file system with two files, and a fresh pipeline object for a file name.\<close>

definition example_env :: env where
  "example_env = \<lparr> path_exists = (\<lambda>p. p = ''/home/data/amelia.xlsx'' \<or> p = ''/home/data/amelia.txt''),
            read_excel = (\<lambda>p. Inr example_raw), read_csv = (\<lambda>p. Inl ReaderError) \<rparr>"

definition example_world :: "string \<Rightarrow> world" where
  "example_world file = \<lparr> store = [],
      self = DataPipeline ''/home'' ''data'' ''Amelia'' file (Timestamp_of_date 19692) \<rparr>"

text \<open>A frame as the validator may receive it: a valid row, a row with volume \<open>-5\<close>, and
  a row without a start time that violates two constraints.\<close>

definition example_invalid :: table where
  "example_invalid = \<lparr> columns = [''feed_start_time'', ''activity'', ''type'', ''feed_volume_ml''],
     rows = [[Tstamp (Timestamp 19723 8 0 0), Str ''Feeding'', Str ''Bottle'', Num 150],
             [Tstamp (Timestamp 19723 23 0 0), Str ''Feeding'', Str ''Bottle'', Num (- 5)],
             [NaT, Str ''Sleep'', Str ''Nap'', Num 0]] \<rparr>"

text \<open>A log whose second row has no start time, and its cleaned frame.\<close>

definition example_nat :: table where
  "example_nat = \<lparr> columns = [''Start'', ''Finish'', ''Activity'', ''Type'', ''Details''],
     rows = [[Tstamp (Timestamp 19723 8 0 0), NaT, Str ''Feeding'', Str ''Bottle'', Str ''150ml''],
             [NaT, NaT, Str ''Feeding'', Str ''Bottle'', Str ''120ml''],
             [Tstamp (Timestamp 19724 7 0 0), NaT, Str ''Feeding'', Str ''Left'', Str ''-'']] \<rparr>"

definition example_nat_cleaned :: table where
  "example_nat_cleaned = \<lparr> columns = [''feed_start_time'', ''activity'', ''type'', ''feed_volume_ml''],
     rows = [[Tstamp (Timestamp 19723 8 0 0), Str ''Feeding'', Str ''Bottle'', Num 150],
             [NaT, Str ''Feeding'', Str ''Bottle'', Num 120],
             [Tstamp (Timestamp 19724 7 0 0), Str ''Feeding'', Str ''Left'', Num 0]] \<rparr>"

definition example_nat_env :: env where
  "example_nat_env = \<lparr> path_exists = (\<lambda>p. True),
            read_excel = (\<lambda>p. Inr example_nat), read_csv = (\<lambda>p. Inl ReaderError) \<rparr>"

text \<open>A cleaned frame of two valid rows, the second with half a second in its start
  time.\<close>

definition example_fraction :: table where
  "example_fraction = \<lparr> columns = [''feed_start_time'', ''activity'', ''type'', ''feed_volume_ml''],
     rows = [[Tstamp (Timestamp 19723 8 0 0), Str ''Feeding'', Str ''Bottle'', Num 150],
             [Tstamp (Timestamp 19723 9 0 0 + 500000000), Str ''Feeding'', Str ''Bottle'', Num 120]] \<rparr>"

text \<open>A log with a quantity of twenty digits beside a quantity without digits.\<close>

definition example_huge :: table where
  "example_huge = \<lparr> columns = [''Start'', ''Finish'', ''Activity'', ''Type'', ''Details''],
     rows = [[Tstamp (Timestamp 19723 8 0 0), NaT, Str ''Feeding'', Str ''Left'', Str ''-''],
             [Tstamp (Timestamp 19723 9 0 0), NaT, Str ''Feeding'', Str ''Bottle'',
              Str ''99999999999999999999 ml'']] \<rparr>"

text \<open>Three valid records on 2024-01-01, 2024-01-03 and 2024-01-04, none on 2024-01-02,
  as the transformer enriches them.\<close>

definition example_gap :: "enriched_record list" where
  "example_gap = map (enrich ''Amelia'' (Timestamp_of_date 19692))
     [\<lparr> feed_start_time = Timestamp 19723 8 0 0, activity = FEEDING, type = BOTTLE,
         feed_volume_ml = 850, units = ''ml'' \<rparr>,
      \<lparr> feed_start_time = Timestamp 19725 23 0 0, activity = FEEDING, type = BOTTLE,
         feed_volume_ml = 521, units = ''ml'' \<rparr>,
      \<lparr> feed_start_time = Timestamp 19726 9 0 0, activity = FEEDING, type = LEFT,
         feed_volume_ml = 0, units = ''ml'' \<rparr>]"

text \<open>A week with 2300 ml by day and 1700 ml by night.\<close>

definition example_week :: "enriched_record list" where
  "example_week = map (enrich ''Amelia'' (Timestamp_of_date 19692))
     [\<lparr> feed_start_time = Timestamp 19723 8 0 0, activity = FEEDING, type = BOTTLE,
         feed_volume_ml = 2300, units = ''ml'' \<rparr>,
      \<lparr> feed_start_time = Timestamp 19723 23 0 0, activity = FEEDING, type = BOTTLE,
         feed_volume_ml = 1700, units = ''ml'' \<rparr>]"

section \<open>Properties\<close>

subsection \<open>Auxiliary facts\<close>

lemmas ns_defs = ns_per_day_def ns_per_hour_def ns_per_minute_def ns_per_second_def

lemma enrich_sel:
  "name (enrich nm dob r) = nm"
  "age_in_days (enrich nm dob r) = timedelta_days (feed_start_time r - dob)"
  "age_in_weeks (enrich nm dob r) = timedelta_days (feed_start_time r - dob) div 7"
  "time (enrich nm dob r) = index_time (feed_start_time r)"
  "time_str (enrich nm dob r) = strftime_IMp (feed_start_time r)"
  "night_or_day (enrich nm dob r) = night_or_day_of (fractional_hour (index_time (feed_start_time r)))"
  "feed_start_time (enrich nm dob r) = feed_start_time r"
  "activity (enrich nm dob r) = activity r"
  "type (enrich nm dob r) = type r"
  "feed_volume_ml (enrich nm dob r) = feed_volume_ml r"
  "units (enrich nm dob r) = units r"
  "feed_record.truncate (enrich nm dob r) = r"
  by (simp_all add: enrich_def feed_record.extend_def feed_record.truncate_def Let_def)

subsection \<open>Night and day\<close>

text \<open>
  Claim C3. For every enriched record, \<open>night_or_day\<close> is computed from the fractional
  hour of the day \<open>h = hour + minute/60\<close>: it is \<open>Night\<close> exactly when \<open>h \<ge> 22.5\<close> or
  \<open>h < 6.5\<close>, and \<open>Day\<close> otherwise. On any day, a record at 22:30:00 is \<open>Night\<close>, a record at
  06:30:00 is \<open>Day\<close> and a record at 06:29:59 is \<open>Night\<close>.
\<close>

theorem night_or_day_rule:
  "(night_or_day (enrich nm dob r) = Night \<longleftrightarrow>
      fractional_hour (time (enrich nm dob r)) \<ge> 22.5 \<or> fractional_hour (time (enrich nm dob r)) < 6.5)
   \<and> (night_or_day (enrich nm dob r) = Day \<longleftrightarrow>
      fractional_hour (time (enrich nm dob r)) < 22.5 \<and> fractional_hour (time (enrich nm dob r)) \<ge> 6.5)
   \<and> fractional_hour (time (enrich nm dob r))
       = of_int (hour (index_time (feed_start_time r))) + of_int (minute (index_time (feed_start_time r))) / 60
   \<and> night_or_day (enrich nm dob (r\<lparr>feed_start_time := Timestamp d 22 30 0\<rparr>)) = Night
   \<and> night_or_day (enrich nm dob (r\<lparr>feed_start_time := Timestamp d 6 30 0\<rparr>)) = Day
   \<and> night_or_day (enrich nm dob (r\<lparr>feed_start_time := Timestamp d 6 29 59\<rparr>)) = Night"
proof -
  have t1: "index_time (Timestamp d 22 30 0) = \<lparr> hour = 22, minute = 30, second = 0, microsecond = 0 \<rparr>"
    by (simp add: index_time_def Timestamp_def ns_defs)
  have t2: "index_time (Timestamp d 6 30 0) = \<lparr> hour = 6, minute = 30, second = 0, microsecond = 0 \<rparr>"
    by (simp add: index_time_def Timestamp_def ns_defs)
  have t3: "index_time (Timestamp d 6 29 59) = \<lparr> hour = 6, minute = 29, second = 59, microsecond = 0 \<rparr>"
    by (simp add: index_time_def Timestamp_def ns_defs)
  show ?thesis
    by (simp add: enrich_sel night_or_day_of_def fractional_hour_def t1 t2 t3 not_le not_less)
qed

subsection \<open>Age\<close>

text \<open>
  Claim C4. For every enriched record, \<open>age_in_days\<close> is the offset from \<open>dob\<close> to the
  start time in whole days, rounded down; when \<open>dob\<close> is a date (the timestamp of its
  midnight), this is exactly the difference of the date of the start time and \<open>dob\<close>, an
  integer with no rounding. \<open>age_in_weeks\<close> is \<open>age_in_days // 7\<close>.
\<close>

theorem age_in_days_exact:
  "age_in_days (enrich nm dob r) = \<lfloor>(of_int (feed_start_time r - dob) :: rat) / of_int ns_per_day\<rfloor>
   \<and> age_in_days (enrich nm (Timestamp_of_date d) r) = date (feed_start_time r) - d
   \<and> age_in_weeks (enrich nm dob r) = age_in_days (enrich nm dob r) div 7"
proof -
  have floor_days: "\<lfloor>(of_int (feed_start_time r - dob) :: rat) / of_int ns_per_day\<rfloor>
      = (feed_start_time r - dob) div ns_per_day"
    by (rule floor_divide_of_int_eq)
  have whole_days: "(feed_start_time r - d * ns_per_day) div ns_per_day
      = feed_start_time r div ns_per_day - d"
    by (simp add: ns_defs)
  show ?thesis
    unfolding floor_days
    by (simp add: enrich_sel timedelta_days_def Timestamp_of_date_def date_def whole_days)
qed

subsection \<open>Loader failures\<close>

lemma example_clean: "clean_data example_raw = Inr example_cleaned"
  by code_simp

lemma load_data_fail: "read_source e (full_file_path (self w)) = Inl err \<Longrightarrow> process e lib w = (Some err, w)"
  by (simp add: process_def load_data_def)

text \<open>
  Claim C6. A load request fails with \<^verbatim>\<open>FileNotFoundError\<close> (the missing-source error)
  when the source path does not exist, and with \<^verbatim>\<open>ValueError\<close> (the unsupported-format
  error) when the path exists and its extension is none of \<^verbatim>\<open>.xls\<close>, \<^verbatim>\<open>.xlsx\<close> and
  \<^verbatim>\<open>.csv\<close>. Both end \<^verbatim>\<open>process\<close> with the exception and leave the object and the store
  as they were: on a new pipeline object no output frame is populated.
\<close>

theorem load_failure_is_fatal:
  "(\<not> path_exists e (full_file_path (self w)) \<longrightarrow> process e lib w = (Some FileNotFoundError, w))
   \<and> (path_exists e (full_file_path (self w))
        \<and> lower (suffix (full_file_path (self w))) \<notin> {''.xls'', ''.xlsx'', ''.csv''}
      \<longrightarrow> process e lib w = (Some ValueError, w))
   \<and> raw_data (DataPipeline cwd dir nm file dob) = None
   \<and> daily_data (DataPipeline cwd dir nm file dob) = None
   \<and> weekly_data (DataPipeline cwd dir nm file dob) = None
   \<and> validated_data (DataPipeline cwd dir nm file dob) = None
   \<and> transformed_data (DataPipeline cwd dir nm file dob) = None
   \<and> input_data_errors (DataPipeline cwd dir nm file dob) = None"
  by (auto simp: load_data_fail read_source_def DataPipeline_def Let_def)

text \<open>Witness for C6: a path that does not exist, and an existing file with the
  extension \<^verbatim>\<open>.txt\<close>.\<close>

theorem load_failure_witness:
  "process example_env strict_coercions (example_world ''amelia.xls'')
     = (Some FileNotFoundError, example_world ''amelia.xls'')
   \<and> process example_env strict_coercions (example_world ''amelia.txt'')
     = (Some ValueError, example_world ''amelia.txt'')"
proof -
  have missing: "\<not> path_exists example_env (full_file_path (self (example_world ''amelia.xls'')))"
    by (simp add: example_env_def example_world_def DataPipeline_def path_join_def)
  have present: "path_exists example_env (full_file_path (self (example_world ''amelia.txt'')))"
    by (simp add: example_env_def example_world_def DataPipeline_def path_join_def)
  have sfx: "lower (suffix (full_file_path (self (example_world ''amelia.txt'')))) = ''.txt''"
    by code_simp
  show ?thesis
    using load_failure_is_fatal [of example_env "example_world ''amelia.xls''" strict_coercions]
      load_failure_is_fatal [of example_env "example_world ''amelia.txt''" strict_coercions]
      missing present
    by (simp add: sfx)
qed

subsection \<open>Cleaning a cleaned frame\<close>

lemma lower_char_not_F: "lower_char c \<noteq> CHR ''F''"
proof
  assume a: "lower_char c = CHR ''F''"
  show False
  proof (cases "65 \<le> (of_char c :: nat) \<and> (of_char c :: nat) \<le> 90")
    case True
    with a have "char_of ((of_char c :: nat) + 32) = CHR ''F''"
      by (simp add: lower_char_def)
    then have "(of_char (char_of ((of_char c :: nat) + 32) :: char) :: nat) = of_char (CHR ''F'')"
      by simp
    with True show False by (simp add: of_char_of)
  next
    case False
    with a have "c = CHR ''F''" by (simp add: lower_char_def)
    with False show False by simp
  qed
qed

lemma lower_not_Finish: "lower s \<noteq> ''Finish''"
proof (cases s)
  case Nil
  then show ?thesis by (simp add: lower_def)
next
  case (Cons a as)
  then show ?thesis using lower_char_not_F [of a] by (simp add: lower_def)
qed

lemma rename_lower_not_Finish: "rename_column (lower s) \<noteq> ''Finish''"
  using lower_not_Finish [of s] by (simp add: rename_column_def)

lemma clean_data_InrE:
  assumes "clean_data df = Inr out"
  obtains d rs where
    "drop_column ''Finish'' (df\<lparr>rows := drop_duplicates (rows df)\<rparr>) = Inr d"
    "sequence (map (set_volume (map rename_column (map lower (columns d)))) (rows d)) = Inr rs"
    "out = \<lparr> columns = map rename_column (map lower (columns d)), rows = rs \<rparr>"
  using assms unfolding clean_data_def Let_def
  by (auto simp del: map_map split: sum.splits if_splits)

lemma clean_data_columns:
  assumes "clean_data df = Inr out"
  shows "''Finish'' \<notin> set (columns out)"
proof -
  from assms obtain d :: table and rs where
    out: "out = \<lparr> columns = map rename_column (map lower (columns d)), rows = rs \<rparr>"
    by (rule clean_data_InrE)
  have "set (columns out) = (\<lambda>c. rename_column (lower c)) ` set (columns d)"
    unfolding out by auto
  then show ?thesis using rename_lower_not_Finish by (metis imageE)
qed

text \<open>
  Claim C7, as amended. The cleaner is not idempotent: every frame it returns has
  lower-case labels only, hence no column \<^verbatim>\<open>Finish\<close>, and the cleaning step run on its own
  output raises \<^verbatim>\<open>KeyError\<close> for that column instead of returning the output.
\<close>

theorem clean_data_twice_fails:
  "clean_data df = Inr out \<Longrightarrow> clean_data out = Inl (KeyError ''Finish'')"
  using clean_data_columns [of df out] by (simp add: clean_data_def drop_column_def)

text \<open>Witness for C7: the example log.\<close>

theorem clean_data_twice_fails_witness:
  "clean_data example_raw = Inr example_cleaned \<and> clean_data example_cleaned = Inl (KeyError ''Finish'')"
  using clean_data_twice_fails [of example_raw example_cleaned] example_clean by simp

text \<open>Counterexample to C7 as stated (the second run succeeds and returns its input): the
  cleaned example log.\<close>

theorem clean_data_not_idempotent:
  "\<not> (\<forall>df out. clean_data df = Inr out \<longrightarrow> clean_data out = Inr out)"
proof
  assume "\<forall>df out. clean_data df = Inr out \<longrightarrow> clean_data out = Inr out"
  with example_clean have "clean_data example_cleaned = Inr example_cleaned" by blast
  moreover have "clean_data example_cleaned = Inl (KeyError ''Finish'')" by code_simp
  ultimately show False by simp
qed

subsection \<open>The validator\<close>

lemma field_errors_Nil: "field_errors loc res = [] \<longleftrightarrow> (\<exists>v. res = Inr v)"
  by (cases res) (simp_all add: field_errors_def)

lemma FeedingData_Inl_nonempty: "FeedingData lib d = Inl es \<Longrightarrow> es \<noteq> []"
  unfolding FeedingData_def Let_def
  by (auto simp: field_errors_def split: sum.splits)

lemma FeedingData_Inr_volume: "FeedingData lib d = Inr x \<Longrightarrow> 0 \<le> inst_feed_volume_ml x"
  unfolding FeedingData_def Let_def
  by (auto simp: required_def validate_volume_def split: sum.splits option.splits if_splits cell.splits)

lemma model_dump_volume: "model_dump x = Inr r \<Longrightarrow> feed_volume_ml r = inst_feed_volume_ml x"
  by (auto simp: model_dump_def split: option.splits)

lemma model_dump_error: "model_dump x = Inl err \<Longrightarrow> err = TypeError"
  by (auto simp: model_dump_def split: option.splits)

lemma numbered_length: "length (numbered k es) = length es"
  by (induction k es rule: numbered.induct) simp_all

lemma numbered_nth:
  "i < length es \<Longrightarrow> numbered k es ! i = str_nat (k + i) @ '') '' @ fst (es ! i) @ '': '' @ snd (es ! i)"
proof (induction k es arbitrary: i rule: numbered.induct)
  case (1 i0)
  then show ?case by simp
next
  case (2 i0 loc msg es)
  then show ?case by (cases i) simp_all
qed

text \<open>What a row contributes, by the outcome of the schema and of the dump.\<close>

lemma row_cases:
  obtains (invalid) errs where "FeedingData lib d = Inl errs" "row_valid lib d = []"
      "row_error lib d = [make_error_record d errs]" "\<not> row_raises lib d"
  | (raises) x where "FeedingData lib d = Inr x" "model_dump x = Inl TypeError"
      "row_valid lib d = []" "row_error lib d = []" "row_raises lib d"
  | (valid) x r where "FeedingData lib d = Inr x" "model_dump x = Inr r"
      "row_valid lib d = [r]" "row_error lib d = []" "\<not> row_raises lib d"
proof (cases "FeedingData lib d")
  case (Inl errs)
  then show ?thesis
    by (intro invalid [of errs]) (simp_all add: row_valid_def row_error_def row_raises_def)
next
  case (Inr x)
  show ?thesis
  proof (cases "model_dump x")
    case (Inl err)
    with Inr model_dump_error [OF Inl] show ?thesis
      by (intro raises [of x]) (simp_all add: row_valid_def row_error_def row_raises_def)
  next
    case dumped: (Inr r)
    with Inr show ?thesis
      by (intro valid [of x r]) (simp_all add: row_valid_def row_error_def row_raises_def)
  qed
qed

text \<open>The loop either raises at the first row whose instance cannot be dumped, or
  returns what the rows contribute, in their order.\<close>

lemma validate_loop_eq:
  "validate_loop lib ds fl er
     = (if \<exists>d \<in> set ds. row_raises lib d then Inl TypeError
        else Inr (fl @ concat (map (row_valid lib) ds), er @ concat (map (row_error lib) ds)))"
proof (induction ds arbitrary: fl er)
  case Nil
  then show ?case by simp
next
  case (Cons d ds)
  show ?case
  proof (cases d rule: row_cases [of lib])
    case (invalid errs)
    then show ?thesis by (simp add: Cons.IH)
  next
    case (raises x)
    then show ?thesis by simp
  next
    case (valid x r)
    then show ?thesis by (simp add: Cons.IH)
  qed
qed

lemma validate_records_InrD:
  assumes "validate_records lib df = Inr (valid, errors)"
  shows "valid = concat (map (row_valid lib) (to_dict_records df))"
    and "errors = concat (map (row_error lib) (to_dict_records df))"
    and "\<forall>d \<in> set (to_dict_records df). \<not> row_raises lib d"
    and "to_datetime (map feed_start_time valid) = Inr (map feed_start_time valid)"
proof -
  from assms obtain fl er where loop: "validate_loop lib (to_dict_records df) [] [] = Inr (fl, er)"
    by (auto simp: validate_records_def split: sum.splits)
  with assms obtain idx where idx: "to_datetime (map feed_start_time fl) = Inr idx"
    and eq: "valid = fl" "errors = er"
    by (auto simp: validate_records_def split: sum.splits)
  from loop have no: "\<not> (\<exists>d \<in> set (to_dict_records df). row_raises lib d)"
    by (simp add: validate_loop_eq split: if_splits)
  with loop have "fl = concat (map (row_valid lib) (to_dict_records df))"
    "er = concat (map (row_error lib) (to_dict_records df))"
    by (simp_all add: validate_loop_eq)
  with eq show "valid = concat (map (row_valid lib) (to_dict_records df))"
    "errors = concat (map (row_error lib) (to_dict_records df))" by simp_all
  from no show "\<forall>d \<in> set (to_dict_records df). \<not> row_raises lib d" by simp
  from idx eq show "to_datetime (map feed_start_time valid) = Inr (map feed_start_time valid)"
    by (auto simp: to_datetime_def split: list.splits if_splits)
qed

lemma validate_records_raises:
  "d \<in> set (to_dict_records df) \<Longrightarrow> row_raises lib d \<Longrightarrow> validate_records lib df = Inl TypeError"
  by (auto simp: validate_records_def validate_loop_eq)

lemma row_outcome_one:
  "\<not> row_raises lib d \<Longrightarrow> length (row_valid lib d) + length (row_error lib d) = 1"
  by (cases d rule: row_cases [of lib]) simp_all

lemma length_concat_rows:
  "\<forall>d \<in> set ds. \<not> row_raises lib d \<Longrightarrow>
   length (concat (map (row_valid lib) ds)) + length (concat (map (row_error lib) ds)) = length ds"
proof (induction ds)
  case Nil
  then show ?case by simp
next
  case (Cons d ds)
  then show ?case using row_outcome_one [of lib d] by simp
qed

lemma validate_records_lengths:
  assumes "validate_records lib df = Inr (valid, errors)"
  shows "length valid + length errors = length (rows df)"
  using validate_records_InrD [OF assms] length_concat_rows [of "to_dict_records df" lib]
  by (simp add: to_dict_records_def)

lemma row_error_record:
  assumes "row_error lib d = [e]"
  shows "\<exists>es. FeedingData lib d = Inl es \<and> es \<noteq> [] \<and> original e = d
           \<and> total_errors e = length es \<and> error_details e = join_lines (numbered 1 es)"
  using assms FeedingData_Inl_nonempty [of lib d]
  by (auto simp: row_error_def make_error_record_def split: sum.splits)

lemma valid_records_volume:
  assumes "validate_records lib df = Inr (valid, errors)" and "r \<in> set valid"
  shows "0 \<le> feed_volume_ml r"
proof -
  from validate_records_InrD(1) [OF assms(1)] assms(2)
  obtain d where "r \<in> set (row_valid lib d)" by auto
  then show ?thesis
  proof (cases d rule: row_cases [of lib])
    case (valid x r')
    with \<open>r \<in> set (row_valid lib d)\<close> show ?thesis
      using FeedingData_Inr_volume [of lib d x] model_dump_volume [of x r] by simp
  qed simp_all
qed

lemma NaT_row_raises:
  assumes "dict_get d ''feed_start_time'' = Some NaT" and "FeedingData lib d = Inr x"
  shows "row_raises lib d"
proof -
  from assms have "inst_feed_start_time x = None"
    unfolding FeedingData_def Let_def
    by (auto simp: required_def validate_datetime_def split: sum.splits)
  with assms(2) show ?thesis
    by (simp add: row_raises_def model_dump_def)
qed

lemma validate_inputs_raises:
  "validate_records lib df = Inl err \<Longrightarrow> validate_inputs lib df w = (Inl err, w)"
  by (simp add: validate_inputs_def)

lemma mixed_formats_raise:
  assumes "validate_loop lib (to_dict_records df) [] [] = Inr (r # rs, er)"
    and "u \<in> set rs" and "iso_fraction (feed_start_time u) \<noteq> iso_fraction (feed_start_time r)"
  shows "validate_records lib df = Inl ValueError"
proof -
  from assms(2,3)
  have "\<not> list_all (\<lambda>u. iso_fraction u = iso_fraction (feed_start_time r)) (map feed_start_time rs)"
    by (auto simp: list_all_iff)
  with assms(1) show ?thesis
    by (simp add: validate_records_def to_datetime_def)
qed

lemma example_nat_clean: "clean_data example_nat = Inr example_nat_cleaned"
  by code_simp

lemma example_nat_source:
  "read_source example_nat_env (full_file_path (self (example_world ''amelia.xlsx''))) = Inr example_nat"
  by code_simp

lemma example_nat_row:
  "to_dict_records example_nat_cleaned ! 1 \<in> set (to_dict_records example_nat_cleaned)"
  "dict_get (to_dict_records example_nat_cleaned ! 1) ''feed_start_time'' = Some NaT"
  "\<exists>x. FeedingData lib (to_dict_records example_nat_cleaned ! 1) = Inr x"
  by (simp_all add: example_nat_cleaned_def to_dict_records_def FeedingData_def Let_def
      dict_get_def required_def validate_datetime_def validate_activity_def validate_type_def
      validate_volume_def field_errors_def)

lemma example_fraction_loop:
  "\<exists>r u. validate_loop lib (to_dict_records example_fraction) [] [] = Inr ([r, u], [])
     \<and> \<not> iso_fraction (feed_start_time r) \<and> iso_fraction (feed_start_time u)"
  by (simp add: example_fraction_def to_dict_records_def FeedingData_def Let_def
      dict_get_def required_def validate_datetime_def validate_activity_def validate_type_def
      validate_volume_def field_errors_def model_dump_def iso_fraction_def index_time_def
      Timestamp_def ns_defs)

text \<open>
  Claim C1. The validator does not partition every cleaned frame. Its \<^verbatim>\<open>try\<close> catches
  \<^verbatim>\<open>ValidationError\<close> only, and the schema accepts the missing timestamp \<open>NaT\<close> as a start
  time: when some row has the start time \<open>NaT\<close> and satisfies the schema, the validator
  raises \<^verbatim>\<open>TypeError\<close>, whatever the other rows are; the row yields neither a valid record
  nor an error record, no frame is built and the object is left as it was. When every
  row passes the loop, the conversion of the start times to the index raises
  \<^verbatim>\<open>ValueError\<close> if one of them has a fraction of a second and the first one has none (or
  the other way round).
\<close>

theorem validator_raises_on_missing_start_time:
  "(\<forall>d \<in> set (to_dict_records df). \<forall>x.
      dict_get d ''feed_start_time'' = Some NaT \<and> FeedingData lib d = Inr x \<longrightarrow>
        row_valid lib d = [] \<and> row_error lib d = []
        \<and> validate_records lib df = Inl TypeError
        \<and> validate_inputs lib df w = (Inl TypeError, w))
   \<and> (\<forall>r rs er. validate_loop lib (to_dict_records df) [] [] = Inr (r # rs, er)
        \<and> (\<exists>u \<in> set rs. iso_fraction (feed_start_time u) \<noteq> iso_fraction (feed_start_time r)) \<longrightarrow>
        validate_records lib df = Inl ValueError
        \<and> validate_inputs lib df w = (Inl ValueError, w))"
proof -
  have first: "row_valid lib d = [] \<and> row_error lib d = []
        \<and> validate_records lib df = Inl TypeError
        \<and> validate_inputs lib df w = (Inl TypeError, w)"
    if "d \<in> set (to_dict_records df)" "dict_get d ''feed_start_time'' = Some NaT"
      "FeedingData lib d = Inr x" for d x
  proof -
    from that(2,3) have raises: "row_raises lib d" by (rule NaT_row_raises)
    then have "row_valid lib d = []" "row_error lib d = []"
      by (cases d rule: row_cases [of lib]; simp)+
    moreover from that(1) raises have "validate_records lib df = Inl TypeError"
      by (rule validate_records_raises)
    ultimately show ?thesis by (simp add: validate_inputs_raises)
  qed
  have second: "validate_records lib df = Inl ValueError
        \<and> validate_inputs lib df w = (Inl ValueError, w)"
    if "validate_loop lib (to_dict_records df) [] [] = Inr (r # rs, er)"
      "\<exists>u \<in> set rs. iso_fraction (feed_start_time u) \<noteq> iso_fraction (feed_start_time r)"
    for r rs er
    using that mixed_formats_raise [of lib df r rs er] by (auto simp: validate_inputs_raises)
  from first second show ?thesis by blast
qed

text \<open>Witness for C1: a log of three rows whose second row has no start time. The
  cleaner accepts it, the validator raises, and \<^verbatim>\<open>process\<close> ends with the exception and
  with no frame but the raw one. And a frame of two valid rows, the second with half a
  second in its start time.\<close>

theorem validator_raises_witness:
  "clean_data example_nat = Inr example_nat_cleaned
   \<and> length (rows example_nat_cleaned) = 3
   \<and> validate_records strict_coercions example_nat_cleaned = Inl TypeError
   \<and> process example_nat_env strict_coercions (example_world ''amelia.xlsx'')
       = (Some TypeError,
          (example_world ''amelia.xlsx'')
            \<lparr>self := (self (example_world ''amelia.xlsx''))\<lparr>raw_data := Some example_nat\<rparr>\<rparr>)
   \<and> validated_data (self (snd (process example_nat_env strict_coercions (example_world ''amelia.xlsx'')))) = None
   \<and> input_data_errors (self (snd (process example_nat_env strict_coercions (example_world ''amelia.xlsx'')))) = None
   \<and> transformed_data (self (snd (process example_nat_env strict_coercions (example_world ''amelia.xlsx'')))) = None
   \<and> validate_records strict_coercions example_fraction = Inl ValueError"
proof -
  let ?w = "example_world ''amelia.xlsx''"
  let ?w1 = "?w\<lparr>self := (self ?w)\<lparr>raw_data := Some example_nat\<rparr>\<rparr>"
  note inst = validator_raises_on_missing_start_time [of example_nat_cleaned strict_coercions ?w1]
  obtain x where x: "FeedingData strict_coercions (to_dict_records example_nat_cleaned ! 1) = Inr x"
    using example_nat_row(3) by blast
  from inst [THEN conjunct1, rule_format, OF example_nat_row(1), of x] example_nat_row(2) x
  have raised: "validate_records strict_coercions example_nat_cleaned = Inl TypeError"
    "validate_inputs strict_coercions example_nat_cleaned ?w1 = (Inl TypeError, ?w1)"
    by simp_all
  have run: "process example_nat_env strict_coercions ?w = (Some TypeError, ?w1)"
    by (simp add: process_def load_data_def example_nat_source example_nat_clean raised(2))
  have fields: "validated_data (self ?w1) = None" "input_data_errors (self ?w1) = None"
    "transformed_data (self ?w1) = None"
    by (simp_all add: example_world_def DataPipeline_def)
  obtain r u where loop: "validate_loop strict_coercions (to_dict_records example_fraction) [] [] = Inr ([r, u], [])"
    and fr: "\<not> iso_fraction (feed_start_time r)" "iso_fraction (feed_start_time u)"
    using example_fraction_loop [of strict_coercions] by blast
  from validator_raises_on_missing_start_time [of example_fraction strict_coercions ?w,
      THEN conjunct2, rule_format, of r "[u]" "[]"] loop fr
  have mixed: "validate_records strict_coercions example_fraction = Inl ValueError"
    by simp
  have len: "length (rows example_nat_cleaned) = 3"
    by (simp add: example_nat_cleaned_def)
  from example_nat_clean len raised(1) run fields mixed show ?thesis
    by simp
qed

subsection \<open>The run of the pipeline\<close>

lemma records_at_alloc:
  "records_at (st @ [Validated rs]) (length st) = rs"
  by (simp add: records_at_def)

lemma validate_inputs_Inr:
  "validate_records lib df = Inr (valid, errors) \<Longrightarrow>
   validate_inputs lib df w =
     (Inr (length (store w)),
      \<lparr> store = store w @ [Validated valid],
        self = (self w)\<lparr>input_data_errors := Some errors,
                        validated_data := Some (length (store w))\<rparr> \<rparr>)"
  by (simp add: validate_inputs_def alloc_def)

lemma validate_inputs_InrD:
  "validate_inputs lib df w = (Inr a, w2) \<Longrightarrow> \<exists>valid errors. validate_records lib df = Inr (valid, errors)"
  by (cases "validate_records lib df") (auto simp: validate_inputs_def)

lemma transform_data_store:
  assumes "transform_data a w = (res, w')"
  shows "store w' = (store w)[a := Transformed (map (enrich (self_name (self w)) (self_dob (self w))) (records_at (store w) a))]"
    and "transformed_data (self w') = Some a"
    and "validated_data (self w') = validated_data (self w)"
  using assms unfolding transform_data_def Let_def
  by (auto split: if_splits sum.splits)

lemma process_NoneE:
  assumes "process e lib w = (None, w')"
  obtains raw cleaned valid errors where
    "read_source e (full_file_path (self w)) = Inr raw"
    "clean_data raw = Inr cleaned"
    "validate_records lib cleaned = Inr (valid, errors)"
    "validated_data (self w') = Some (length (store w))"
    "transformed_data (self w') = Some (length (store w))"
    "store w' = store w @ [Transformed (map (enrich (self_name (self w)) (self_dob (self w))) valid)]"
proof -
  from assms obtain raw where raw: "read_source e (full_file_path (self w)) = Inr raw"
    by (auto simp: process_def load_data_def split: sum.splits prod.splits)
  define w1 where "w1 = w\<lparr>self := (self w)\<lparr>raw_data := Some raw\<rparr>\<rparr>"
  from assms raw obtain cleaned where cleaned: "clean_data raw = Inr cleaned"
    by (auto simp: process_def load_data_def split: sum.splits prod.splits)
  from assms raw cleaned obtain a w2 where vi: "validate_inputs lib cleaned w1 = (Inr a, w2)"
    by (auto simp: process_def load_data_def w1_def split: sum.splits prod.splits)
  then obtain valid errors where vr: "validate_records lib cleaned = Inr (valid, errors)"
    using validate_inputs_InrD by blast
  from vi validate_inputs_Inr [OF vr, of w1]
  have a: "a = length (store w)"
    and w2: "w2 = \<lparr> store = store w @ [Validated valid],
        self = (self w1)\<lparr>input_data_errors := Some errors,
                         validated_data := Some (length (store w))\<rparr> \<rparr>"
    by (simp_all add: w1_def)
  from assms raw cleaned vi obtain r where tr: "transform_data a w2 = (r, w')"
    by (auto simp: process_def load_data_def w1_def split: sum.splits prod.splits)
  have st2: "store w2 = store w @ [Validated valid]"
    and v2: "validated_data (self w2) = Some (length (store w))"
    and nm2: "self_name (self w2) = self_name (self w)" "self_dob (self w2) = self_dob (self w)"
    by (simp_all add: w2 w1_def)
  from transform_data_store [OF tr] st2 v2 nm2
  have "validated_data (self w') = Some (length (store w))"
    "transformed_data (self w') = Some (length (store w))"
    "store w' = store w @ [Transformed (map (enrich (self_name (self w)) (self_dob (self w))) valid)]"
    by (simp_all add: a records_at_alloc)
  with raw cleaned vr that show thesis by blast
qed

lemma sequence_all_Inr:
  "\<forall>x \<in> set xs. \<exists>y. x = Inr y \<Longrightarrow> \<exists>ys. sequence xs = Inr ys"
proof (induction xs)
  case Nil
  then show ?case by simp
next
  case (Cons x xs)
  then obtain y ys where "x = Inr y" "sequence xs = Inr ys" by auto
  then show ?case by simp
qed

lemma weekly_df_defined:
  assumes "\<forall>r \<in> set (weekly_groups df). weekly_total (weekly_groups df) r \<noteq> 0"
  shows "\<exists>wk. weekly_df df = Inr wk"
  unfolding weekly_df_def Let_def
  using assms by (intro sequence_all_Inr) (auto simp: text_label_of_def)

text \<open>A run whose stages all return.\<close>

lemma process_runs:
  assumes "read_source e (full_file_path (self w)) = Inr raw"
    and "clean_data raw = Inr cleaned"
    and "validate_records lib cleaned = Inr (valid, errors)"
    and "valid \<noteq> []"
    and "\<exists>wk. weekly_df (map (enrich (self_name (self w)) (self_dob (self w))) valid) = Inr wk"
  shows "\<exists>w'. process e lib w = (None, w')"
proof -
  let ?w1 = "w\<lparr>self := (self w)\<lparr>raw_data := Some raw\<rparr>\<rparr>"
  let ?w2 = "\<lparr> store = store ?w1 @ [Validated valid],
        self = (self ?w1)\<lparr>input_data_errors := Some errors,
                          validated_data := Some (length (store ?w1))\<rparr> \<rparr>"
  from assms(5) obtain wk where wk: "weekly_df (map (enrich (self_name (self w)) (self_dob (self w))) valid) = Inr wk"
    by blast
  have "\<exists>w'. transform_data (length (store ?w1)) ?w2 = (Inr (length (store ?w1)), w')"
    using assms(4) wk by (simp add: transform_data_def Let_def records_at_def)
  then obtain w' where "transform_data (length (store ?w1)) ?w2 = (Inr (length (store ?w1)), w')"
    by blast
  then have "process e lib w = (None, w')"
    by (simp add: process_def load_data_def assms(1,2) validate_inputs_Inr [OF assms(3)])
  then show ?thesis by blast
qed

lemma example_source:
  "read_source example_env (full_file_path (self (example_world ''amelia.xlsx''))) = Inr example_raw"
  by code_simp

lemma example_validate:
  "validate_records strict_coercions example_cleaned =
     Inr ([\<lparr> feed_start_time = Timestamp 19723 8 0 0, activity = FEEDING, type = BOTTLE,
              feed_volume_ml = 150, units = ''ml'' \<rparr>,
           \<lparr> feed_start_time = Timestamp 19723 23 0 0, activity = FEEDING, type = BOTTLE,
              feed_volume_ml = 100, units = ''ml'' \<rparr>,
           \<lparr> feed_start_time = Timestamp 19724 7 0 0, activity = FEEDING, type = LEFT,
              feed_volume_ml = 0, units = ''ml'' \<rparr>], [])"
  by code_simp

lemma example_weekly_totals:
  "list_all (\<lambda>r. weekly_total (weekly_groups (map (enrich ''Amelia'' (Timestamp_of_date 19692))
          [\<lparr> feed_start_time = Timestamp 19723 8 0 0, activity = FEEDING, type = BOTTLE,
              feed_volume_ml = 150, units = ''ml'' \<rparr>,
           \<lparr> feed_start_time = Timestamp 19723 23 0 0, activity = FEEDING, type = BOTTLE,
              feed_volume_ml = 100, units = ''ml'' \<rparr>,
           \<lparr> feed_start_time = Timestamp 19724 7 0 0, activity = FEEDING, type = LEFT,
              feed_volume_ml = 0, units = ''ml'' \<rparr>])) r \<noteq> 0)
     (weekly_groups (map (enrich ''Amelia'' (Timestamp_of_date 19692))
          [\<lparr> feed_start_time = Timestamp 19723 8 0 0, activity = FEEDING, type = BOTTLE,
              feed_volume_ml = 150, units = ''ml'' \<rparr>,
           \<lparr> feed_start_time = Timestamp 19723 23 0 0, activity = FEEDING, type = BOTTLE,
              feed_volume_ml = 100, units = ''ml'' \<rparr>,
           \<lparr> feed_start_time = Timestamp 19724 7 0 0, activity = FEEDING, type = LEFT,
              feed_volume_ml = 0, units = ''ml'' \<rparr>]))"
  by code_simp

lemma example_process:
  "\<exists>w'. process example_env strict_coercions (example_world ''amelia.xlsx'') = (None, w')"
proof (rule process_runs [OF example_source example_clean example_validate])
  have nm: "self_name (self (example_world ''amelia.xlsx'')) = ''Amelia''"
    "self_dob (self (example_world ''amelia.xlsx'')) = Timestamp_of_date 19692"
    by (simp_all add: example_world_def DataPipeline_def)
  show "\<exists>wk. weekly_df (map (enrich (self_name (self (example_world ''amelia.xlsx'')))
                 (self_dob (self (example_world ''amelia.xlsx''))))
          [\<lparr> feed_start_time = Timestamp 19723 8 0 0, activity = FEEDING, type = BOTTLE,
              feed_volume_ml = 150, units = ''ml'' \<rparr>,
           \<lparr> feed_start_time = Timestamp 19723 23 0 0, activity = FEEDING, type = BOTTLE,
              feed_volume_ml = 100, units = ''ml'' \<rparr>,
           \<lparr> feed_start_time = Timestamp 19724 7 0 0, activity = FEEDING, type = LEFT,
              feed_volume_ml = 0, units = ''ml'' \<rparr>]) = Inr wk"
    unfolding nm using example_weekly_totals
    by (intro weekly_df_defined) (simp only: list_all_iff)
qed simp

subsection \<open>Negative volumes\<close>

lemma negative_volume_errors:
  assumes "n < 0" and "dict_get d ''feed_volume_ml'' = Some (Num n)"
  shows "\<exists>es. FeedingData lib d = Inl es \<and> (''feed_volume_ml'', ge_message) \<in> set es"
  using assms unfolding FeedingData_def Let_def
  by (auto simp: required_def validate_volume_def field_errors_def split: sum.splits)

lemma only_volume_error:
  assumes "n < 0" and "dict_get d ''feed_volume_ml'' = Some (Num n)" and "other_fields_valid lib d"
  shows "FeedingData lib d = Inl [(''feed_volume_ml'', ge_message)]"
  using assms unfolding FeedingData_def Let_def other_fields_valid_def
  by (auto simp: required_def validate_volume_def field_errors_def split: sum.splits option.splits)

lemma error_record_listed:
  assumes "validate_records lib df = Inr (valid, errors)"
    and "d \<in> set (to_dict_records df)" and "FeedingData lib d = Inl es"
  shows "make_error_record d es \<in> set errors"
proof -
  from assms(3) have "row_error lib d = [make_error_record d es]"
    by (simp add: row_error_def)
  with assms(2) show ?thesis
    unfolding validate_records_InrD(2) [OF assms(1)] by force
qed

lemma valid_record_source:
  assumes "validate_records lib df = Inr (valid, errors)" and "r \<in> set valid"
  shows "\<exists>d x. d \<in> set (to_dict_records df) \<and> FeedingData lib d = Inr x \<and> model_dump x = Inr r"
proof -
  from validate_records_InrD(1) [OF assms(1)] assms(2)
  obtain d where d: "d \<in> set (to_dict_records df)" "r \<in> set (row_valid lib d)" by auto
  then show ?thesis
    by (cases d rule: row_cases [of lib]) auto
qed

text \<open>
  Claim C5. Whenever the validator returns its two frames: a row with volume \<open>-5\<close> whose
  other fields are valid is in the error frame with exactly one error entry, the line
  \<^verbatim>\<open>1) feed_volume_ml: Input should be greater than or equal to 0\<close>, and with
  \<open>total_errors = 1\<close>; every row with a negative volume is in the error frame with an
  entry for that violation, and no valid record comes from it; every valid record has a
  volume of at least 0. After a run of \<^verbatim>\<open>process\<close> that completes, every row of the
  transformed frame has a volume of at least 0.
\<close>

theorem negative_volume_rejected:
  "(validate_records lib df = Inr (valid, errors) \<longrightarrow>
      (\<forall>d \<in> set (to_dict_records df).
          dict_get d ''feed_volume_ml'' = Some (Num (- 5)) \<and> other_fields_valid lib d \<longrightarrow>
            FeedingData lib d = Inl [(''feed_volume_ml'', ''Input should be greater than or equal to 0'')]
            \<and> \<lparr> original = d, total_errors = 1,
                 error_details = ''1) feed_volume_ml: Input should be greater than or equal to 0'' \<rparr>
                \<in> set errors)
      \<and> (\<forall>d \<in> set (to_dict_records df). \<forall>n < 0.
          dict_get d ''feed_volume_ml'' = Some (Num n) \<longrightarrow>
            (\<exists>es. FeedingData lib d = Inl es
                \<and> (''feed_volume_ml'', ''Input should be greater than or equal to 0'') \<in> set es
                \<and> \<lparr> original = d, total_errors = length es,
                     error_details = join_lines (numbered 1 es) \<rparr> \<in> set errors)
            \<and> (\<forall>r \<in> set valid. \<forall>x. model_dump x = Inr r \<longrightarrow> FeedingData lib d \<noteq> Inr x))
      \<and> (\<forall>r \<in> set valid. 0 \<le> feed_volume_ml r)
      \<and> (\<forall>r \<in> set (map (enrich nm dob) valid). 0 \<le> feed_volume_ml r)
      \<and> length valid + length errors = length (rows df))
   \<and> (process e lib w = (None, w') \<longrightarrow>
        (\<exists>a es. transformed_data (self w') = Some a \<and> a < length (store w')
           \<and> store w' ! a = Transformed es \<and> (\<forall>r \<in> set es. 0 \<le> feed_volume_ml r)))"
proof -
  have one: "str_nat (Suc 0) = ''1''"
    by code_simp
  have table: "(\<forall>d \<in> set (to_dict_records df).
          dict_get d ''feed_volume_ml'' = Some (Num (- 5)) \<and> other_fields_valid lib d \<longrightarrow>
            FeedingData lib d = Inl [(''feed_volume_ml'', ''Input should be greater than or equal to 0'')]
            \<and> \<lparr> original = d, total_errors = 1,
                 error_details = ''1) feed_volume_ml: Input should be greater than or equal to 0'' \<rparr>
                \<in> set errors)
      \<and> (\<forall>d \<in> set (to_dict_records df). \<forall>n < 0.
          dict_get d ''feed_volume_ml'' = Some (Num n) \<longrightarrow>
            (\<exists>es. FeedingData lib d = Inl es
                \<and> (''feed_volume_ml'', ''Input should be greater than or equal to 0'') \<in> set es
                \<and> \<lparr> original = d, total_errors = length es,
                     error_details = join_lines (numbered 1 es) \<rparr> \<in> set errors)
            \<and> (\<forall>r \<in> set valid. \<forall>x. model_dump x = Inr r \<longrightarrow> FeedingData lib d \<noteq> Inr x))
      \<and> (\<forall>r \<in> set valid. 0 \<le> feed_volume_ml r)
      \<and> (\<forall>r \<in> set (map (enrich nm dob) valid). 0 \<le> feed_volume_ml r)
      \<and> length valid + length errors = length (rows df)"
    if vr: "validate_records lib df = Inr (valid, errors)"
  proof -
    have scenario: "FeedingData lib d = Inl [(''feed_volume_ml'', ''Input should be greater than or equal to 0'')]
            \<and> \<lparr> original = d, total_errors = 1,
                 error_details = ''1) feed_volume_ml: Input should be greater than or equal to 0'' \<rparr>
                \<in> set errors"
      if "d \<in> set (to_dict_records df)" "dict_get d ''feed_volume_ml'' = Some (Num (- 5))"
        "other_fields_valid lib d" for d
    proof -
      have fd: "FeedingData lib d = Inl [(''feed_volume_ml'', ge_message)]"
        using only_volume_error [of "- 5" d lib] that(2,3) by simp
      from error_record_listed [OF vr that(1) fd] fd show ?thesis
        by (simp add: make_error_record_def ge_message_def one)
    qed
    have general: "(\<exists>es. FeedingData lib d = Inl es
                \<and> (''feed_volume_ml'', ''Input should be greater than or equal to 0'') \<in> set es
                \<and> \<lparr> original = d, total_errors = length es,
                     error_details = join_lines (numbered 1 es) \<rparr> \<in> set errors)
            \<and> (\<forall>r \<in> set valid. \<forall>x. model_dump x = Inr r \<longrightarrow> FeedingData lib d \<noteq> Inr x)"
      if "d \<in> set (to_dict_records df)" "n < 0" "dict_get d ''feed_volume_ml'' = Some (Num n)" for d n
    proof -
      from negative_volume_errors [OF that(2,3), of lib]
      obtain es where es: "FeedingData lib d = Inl es" "(''feed_volume_ml'', ge_message) \<in> set es"
        by blast
      from error_record_listed [OF vr that(1) es(1)] es show ?thesis
        by (auto simp: make_error_record_def ge_message_def)
    qed
    have volumes: "\<forall>r \<in> set valid. 0 \<le> feed_volume_ml r"
      using valid_records_volume [OF vr] by blast
    then have enriched: "\<forall>r \<in> set (map (enrich nm dob) valid). 0 \<le> feed_volume_ml r"
      by (simp add: enrich_sel)
    from scenario general volumes enriched validate_records_lengths [OF vr] show ?thesis
      by blast
  qed
  have run: "\<exists>a es. transformed_data (self w') = Some a \<and> a < length (store w')
           \<and> store w' ! a = Transformed es \<and> (\<forall>r \<in> set es. 0 \<le> feed_volume_ml r)"
    if "process e lib w = (None, w')"
  proof -
    from that obtain raw cleaned valid errors where
      vr: "validate_records lib cleaned = Inr (valid, errors)" and
      t: "transformed_data (self w') = Some (length (store w))" and
      st: "store w' = store w @ [Transformed (map (enrich (self_name (self w)) (self_dob (self w))) valid)]"
      by (rule process_NoneE)
    have "\<forall>r \<in> set (map (enrich (self_name (self w)) (self_dob (self w))) valid). 0 \<le> feed_volume_ml r"
      using valid_records_volume [OF vr] by (simp add: enrich_sel)
    with t st show ?thesis by simp
  qed
  from table run show ?thesis by blast
qed

lemma example_invalid_validate:
  "validate_records strict_coercions example_invalid =
     Inr ([\<lparr> feed_start_time = Timestamp 19723 8 0 0, activity = FEEDING, type = BOTTLE,
              feed_volume_ml = 150, units = ''ml'' \<rparr>],
          [\<lparr> original = to_dict_records example_invalid ! 1, total_errors = 1,
              error_details = ''1) feed_volume_ml: Input should be greater than or equal to 0'' \<rparr>,
           \<lparr> original = to_dict_records example_invalid ! 2, total_errors = 2,
              error_details = ''1) activity: Input should be 'Feeding'' @ [CHR 0x27, CHR 0x0A]
                @ ''2) type: Input should be 'Left', 'Right' or 'Bottle'' @ [CHR 0x27] \<rparr>])"
  by code_simp

text \<open>Witness for C5: a frame of a valid row, a row with volume \<open>-5\<close> and a row with two
  violations, and the run over the example log.\<close>

theorem negative_volume_rejected_witness:
  "(\<exists>valid errors. validate_records strict_coercions example_invalid = Inr (valid, errors)
      \<and> \<lparr> original = to_dict_records example_invalid ! 1, total_errors = 1,
           error_details = ''1) feed_volume_ml: Input should be greater than or equal to 0'' \<rparr>
          \<in> set errors
      \<and> length valid = 1 \<and> length errors = 2 \<and> 0 \<le> feed_volume_ml (hd valid))
   \<and> (\<exists>w' es. process example_env strict_coercions (example_world ''amelia.xlsx'') = (None, w')
        \<and> store w' ! 0 = Transformed es \<and> 0 \<le> feed_volume_ml (hd es))"
proof -
  let ?d = "to_dict_records example_invalid ! 1"
  obtain valid errors where vr: "validate_records strict_coercions example_invalid = Inr (valid, errors)"
    and lens: "length valid = 1" "length errors = 2"
    using example_invalid_validate by simp
  obtain w' where run: "process example_env strict_coercions (example_world ''amelia.xlsx'') = (None, w')"
    using example_process by blast
  note inst = negative_volume_rejected [of strict_coercions example_invalid valid errors
      "''Amelia''" "Timestamp_of_date 19692" example_env "example_world ''amelia.xlsx''" w']
  have mem: "?d \<in> set (to_dict_records example_invalid)"
    by (simp add: example_invalid_def to_dict_records_def)
  have vol: "dict_get ?d ''feed_volume_ml'' = Some (Num (- 5))"
    by (simp add: example_invalid_def to_dict_records_def dict_get_def)
  have rest: "other_fields_valid strict_coercions ?d"
    by (simp add: other_fields_valid_def example_invalid_def to_dict_records_def dict_get_def
        required_def validate_datetime_def validate_activity_def validate_type_def field_errors_def)
  note tab = inst [THEN conjunct1, THEN mp, OF vr]
  from tab [THEN conjunct1, rule_format, OF mem] vol rest
  have listed: "\<lparr> original = ?d, total_errors = 1,
           error_details = ''1) feed_volume_ml: Input should be greater than or equal to 0'' \<rparr>
          \<in> set errors"
    by blast
  from lens(1) have "hd valid \<in> set valid" by (cases valid) simp_all
  with tab [THEN conjunct2, THEN conjunct2, THEN conjunct1]
  have nonneg: "0 \<le> feed_volume_ml (hd valid)" by blast
  from inst [THEN conjunct2, THEN mp, OF run]
  obtain a es where a: "transformed_data (self w') = Some a" "store w' ! a = Transformed es"
    and es: "\<forall>r \<in> set es. 0 \<le> feed_volume_ml r"
    by blast
  from run obtain raw cleaned valid' errors' where
    raw: "read_source example_env (full_file_path (self (example_world ''amelia.xlsx''))) = Inr raw" and
    cleaned: "clean_data raw = Inr cleaned" and
    vr': "validate_records strict_coercions cleaned = Inr (valid', errors')" and
    t: "transformed_data (self w') = Some (length (store (example_world ''amelia.xlsx'')))" and
    st: "store w' = store (example_world ''amelia.xlsx'')
           @ [Transformed (map (enrich (self_name (self (example_world ''amelia.xlsx'')))
                (self_dob (self (example_world ''amelia.xlsx'')))) valid')]"
    by (rule process_NoneE)
  from raw have "raw = example_raw" by (simp add: example_source)
  with cleaned have "cleaned = example_cleaned" by (simp add: example_clean)
  with vr' have "length valid' = 3" by (auto simp: example_validate)
  then have ne: "valid' \<noteq> []" by auto
  from t a(1) have a0: "a = 0" by (simp add: example_world_def)
  from st a(2) ne have "es \<noteq> []" unfolding a0 by (auto simp: example_world_def)
  then have "hd es \<in> set es" by simp
  with es a(2) have "store w' ! 0 = Transformed es \<and> 0 \<le> feed_volume_ml (hd es)"
    unfolding a0 by blast
  with run vr listed lens nonneg show ?thesis by blast
qed

subsection \<open>The validated frame is the transformed frame\<close>

text \<open>
  Claim C10. The transformer assigns its columns to the frame it is given and makes no
  copy: after \<^verbatim>\<open>process\<close> has completed, \<^verbatim>\<open>validated_data\<close> and \<^verbatim>\<open>transformed_data\<close> hold
  the same address, and the frame there, which the validator had stored with the columns
  of the schema only, has every column of the transformer (\<open>name\<close>, \<open>age_in_days\<close>,
  \<open>age_in_weeks\<close>, \<open>time\<close>, \<open>time_str\<close>, \<open>night_or_day\<close>) for every valid record.
\<close>

theorem validated_is_transformed:
  "process e lib w = (None, w') \<Longrightarrow>
     \<exists>a raw cleaned valid errors w2.
       read_source e (full_file_path (self w)) = Inr raw \<and> clean_data raw = Inr cleaned
       \<and> validate_records lib cleaned = Inr (valid, errors)
       \<and> validated_data (self w') = Some a \<and> transformed_data (self w') = Some a
       \<and> a < length (store w')
       \<and> store w' ! a = Transformed (map (enrich (self_name (self w)) (self_dob (self w))) valid)
       \<and> validate_inputs lib cleaned (snd (load_data e w)) = (Inr a, w2)
       \<and> store w2 ! a = Validated valid"
proof -
  assume run: "process e lib w = (None, w')"
  then obtain raw cleaned valid errors where
    raw: "read_source e (full_file_path (self w)) = Inr raw" and
    cleaned: "clean_data raw = Inr cleaned" and
    vr: "validate_records lib cleaned = Inr (valid, errors)" and
    v: "validated_data (self w') = Some (length (store w))" and
    t: "transformed_data (self w') = Some (length (store w))" and
    st: "store w' = store w @ [Transformed (map (enrich (self_name (self w)) (self_dob (self w))) valid)]"
    by (rule process_NoneE)
  let ?w1 = "snd (load_data e w)"
  let ?w2 = "\<lparr> store = store ?w1 @ [Validated valid],
        self = (self ?w1)\<lparr>input_data_errors := Some errors,
                          validated_data := Some (length (store ?w1))\<rparr> \<rparr>"
  have st1: "store ?w1 = store w"
    using raw by (simp add: load_data_def)
  have before: "validate_inputs lib cleaned ?w1 = (Inr (length (store w)), ?w2)"
    using validate_inputs_Inr [OF vr, of ?w1] by (simp add: st1)
  have at: "store ?w2 ! length (store w) = Validated valid"
    by (simp add: st1)
  from raw cleaned vr v t st before at show ?thesis
    by (intro exI [of _ "length (store w)"] exI [of _ raw] exI [of _ cleaned]
        exI [of _ valid] exI [of _ errors] exI [of _ ?w2]) simp
qed

text \<open>Witness for C10: the run over the example log.\<close>

theorem validated_is_transformed_witness:
  "\<exists>w' es. process example_env strict_coercions (example_world ''amelia.xlsx'') = (None, w')
     \<and> validated_data (self w') = Some 0 \<and> transformed_data (self w') = Some 0
     \<and> store w' ! 0 = Transformed es \<and> length es = 3"
proof -
  obtain w' where run: "process example_env strict_coercions (example_world ''amelia.xlsx'') = (None, w')"
    using example_process by blast
  have st0: "store (example_world ''amelia.xlsx'') = []"
    by (simp add: example_world_def)
  from validated_is_transformed [OF run]
  obtain a raw cleaned valid errors w2 where
    raw: "read_source example_env (full_file_path (self (example_world ''amelia.xlsx''))) = Inr raw" and
    cleaned: "clean_data raw = Inr cleaned" and
    vr: "validate_records strict_coercions cleaned = Inr (valid, errors)" and
    a: "validated_data (self w') = Some a" "transformed_data (self w') = Some a"
      "store w' ! a = Transformed (map (enrich (self_name (self (example_world ''amelia.xlsx'')))
          (self_dob (self (example_world ''amelia.xlsx'')))) valid)" and
    vi: "validate_inputs strict_coercions cleaned
           (snd (load_data example_env (example_world ''amelia.xlsx''))) = (Inr a, w2)"
    by blast
  from raw have raw_eq: "raw = example_raw" by (simp add: example_source)
  with cleaned have cleaned_eq: "cleaned = example_cleaned" by (simp add: example_clean)
  from vr have len: "length valid = 3"
    unfolding cleaned_eq example_validate by auto
  from vi validate_inputs_Inr [OF vr, of "snd (load_data example_env (example_world ''amelia.xlsx''))"]
  have a0: "a = 0"
    by (simp add: load_data_def example_source st0)
  from run a len show ?thesis
    unfolding a0 by (intro exI conjI) (assumption | simp)+
qed

subsection \<open>The daily frame\<close>

lemma date_mono: "mono date"
  by (auto simp: mono_def date_def ns_defs intro: zdiv_mono1)

lemma sorted_hd_Min:
  assumes "xs \<noteq> []" and "sorted (map f xs)"
  shows "f (hd xs) = Min (f ` set xs)"
proof -
  from assms obtain x ys where xs: "xs = x # ys" by (cases xs) auto
  with assms(2) have "\<forall>y \<in> set ys. f x \<le> f y" by simp
  then have "Min (f ` set xs) = f x"
    unfolding xs by (intro Min_eqI) auto
  then show ?thesis by (simp add: xs)
qed

lemma sorted_last_Max:
  assumes "xs \<noteq> []" and "sorted (map f xs)"
  shows "f (last xs) = Max (f ` set xs)"
proof -
  from assms(1) obtain ys x where xs: "xs = ys @ [x]" by (cases xs rule: rev_cases) auto
  with assms(2) have "\<forall>y \<in> set ys. f y \<le> f x" by (simp add: sorted_append)
  then have "Max (f ` set xs) = f x"
    unfolding xs by (intro Max_eqI) auto
  then show ?thesis by (simp add: xs)
qed

lemma first_day_Min:
  assumes "df \<noteq> []"
  shows "date (feed_start_time (hd (sort_key feed_start_time df))) = Min (days_present df)"
proof -
  let ?S = "sort_key feed_start_time df"
  from assms have ne: "?S \<noteq> []" by (metis length_sort length_0_conv)
  have "feed_start_time (hd ?S) = Min (feed_start_time ` set ?S)"
    using ne by (rule sorted_hd_Min) (rule sorted_sort_key)
  then have "date (feed_start_time (hd ?S)) = date (Min (feed_start_time ` set df))" by simp
  also have "\<dots> = Min (date ` feed_start_time ` set df)"
    using assms by (intro mono_Min_commute date_mono) auto
  finally show ?thesis by (simp add: days_present_def image_image)
qed

lemma last_day_Max:
  assumes "df \<noteq> []"
  shows "date (feed_start_time (last (sort_key feed_start_time df))) = Max (days_present df)"
proof -
  let ?S = "sort_key feed_start_time df"
  from assms have ne: "?S \<noteq> []" by (metis length_sort length_0_conv)
  have "feed_start_time (last ?S) = Max (feed_start_time ` set ?S)"
    using ne by (rule sorted_last_Max) (rule sorted_sort_key)
  then have "date (feed_start_time (last ?S)) = date (Max (feed_start_time ` set df))" by simp
  also have "\<dots> = Max (date ` feed_start_time ` set df)"
    using assms by (intro mono_Max_commute date_mono) auto
  finally show ?thesis by (simp add: days_present_def image_image)
qed

lemma resample_D_eq:
  assumes "df \<noteq> []"
  shows "resample_D df = map (\<lambda>d. (d, day_bin df d)) [Min (days_present df)..Max (days_present df)]"
  using assms by (simp add: resample_D_def Let_def first_day_Min last_day_Max day_bin_def)

lemma butlast_upto: "i \<le> j \<Longrightarrow> butlast [i..j] = [i..j - 1]"
  by (simp add: upto_rec2)

lemma Min_le_Max_days: "df \<noteq> [] \<Longrightarrow> Min (days_present df) \<le> Max (days_present df)"
  by (simp add: days_present_def)

text \<open>The row of one day after the column \<open>age_in_months\<close> has been added.\<close>

lemma daily_before_sort:
  assumes "df \<noteq> []"
  shows "map (\<lambda>r. r\<lparr>age_in_months := map_option (\<lambda>a. of_int a / 30.4375) (daily_age_in_days r)\<rparr>)
          (butlast (map (\<lambda>(d, bin). aggregate_day d bin) (resample_D df)))
       = map (\<lambda>d. (aggregate_day d (day_bin df d))
                \<lparr>age_in_months := map_option (\<lambda>a. of_int a / 30.4375) (first_of age_in_days (day_bin df d))\<rparr>)
           [Min (days_present df)..Max (days_present df) - 1]"
proof -
  have "butlast (map (\<lambda>(d, bin). aggregate_day d bin) (resample_D df))
      = map (\<lambda>d. aggregate_day d (day_bin df d)) (butlast [Min (days_present df)..Max (days_present df)])"
    by (simp add: resample_D_eq [OF assms] map_butlast [symmetric] o_def)
  also have "\<dots> = map (\<lambda>d. aggregate_day d (day_bin df d)) [Min (days_present df)..Max (days_present df) - 1]"
    by (simp only: butlast_upto [OF Min_le_Max_days [OF assms]])
  finally show ?thesis
    by (simp add: o_def aggregate_day_def)
qed

lemma set_sort_values_by_age: "set (sort_values_by_age ds) = set ds"
  by (auto simp: sort_values_by_age_def)

lemma distinct_sort_values_by_age:
  assumes "distinct (map day ds)"
  shows "distinct (map day (sort_values_by_age ds))"
proof -
  from assms have d: "distinct ds" and inj: "inj_on day (set ds)"
    by (simp_all add: distinct_map)
  have "distinct (sort_values_by_age ds)"
    using d by (auto simp: sort_values_by_age_def)
  with inj show ?thesis
    by (simp add: distinct_map set_sort_values_by_age)
qed

lemma filter_partitioned:
  assumes "\<forall>x \<in> set A. P x" and "\<forall>x \<in> set B. \<not> P x"
  shows "filter P (A @ B) = A" and "filter (\<lambda>x. \<not> P x) (A @ B) = B"
  using assms by (simp_all add: filter_id_conv filter_empty_conv)

lemma sort_values_by_age_split:
  "filter (\<lambda>r. daily_age_in_days r \<noteq> None) (sort_values_by_age ds)
     = sort_key (\<lambda>r. the (daily_age_in_days r)) (filter (\<lambda>r. daily_age_in_days r \<noteq> None) ds)"
  "filter (\<lambda>r. \<not> daily_age_in_days r \<noteq> None) (sort_values_by_age ds)
     = filter (\<lambda>r. daily_age_in_days r = None) ds"
  unfolding sort_values_by_age_def
  by (rule filter_partitioned; simp)+

lemma sort_values_by_age_parts:
  "sort_values_by_age ds
     = filter (\<lambda>r. daily_age_in_days r \<noteq> None) (sort_values_by_age ds)
       @ filter (\<lambda>r. daily_age_in_days r = None) (sort_values_by_age ds)"
  "sorted (map (\<lambda>r. the (daily_age_in_days r))
     (filter (\<lambda>r. daily_age_in_days r \<noteq> None) (sort_values_by_age ds)))"
proof -
  have none: "filter (\<lambda>r. daily_age_in_days r = None) (sort_values_by_age ds)
      = filter (\<lambda>r. daily_age_in_days r = None) ds"
    using sort_values_by_age_split(2) [of ds] by simp
  show "sort_values_by_age ds
     = filter (\<lambda>r. daily_age_in_days r \<noteq> None) (sort_values_by_age ds)
       @ filter (\<lambda>r. daily_age_in_days r = None) (sort_values_by_age ds)"
    unfolding sort_values_by_age_split(1) none by (simp add: sort_values_by_age_def)
  show "sorted (map (\<lambda>r. the (daily_age_in_days r))
     (filter (\<lambda>r. daily_age_in_days r \<noteq> None) (sort_values_by_age ds)))"
    unfolding sort_values_by_age_split(1) by (rule sorted_sort_key)
qed

lemma day_bin_Nil: "day_bin df d = [] \<longleftrightarrow> d \<notin> days_present df"
  by (auto simp: day_bin_def days_present_def filter_empty_conv)

lemma daily_fd_eq:
  assumes "df \<noteq> []"
  shows "daily_fd df = sort_values_by_age
     (map (\<lambda>d. (aggregate_day d (day_bin df d))
                \<lparr>age_in_months := map_option (\<lambda>a. of_int a / 30.4375) (first_of age_in_days (day_bin df d))\<rparr>)
           [Min (days_present df)..Max (days_present df) - 1])"
  unfolding daily_fd_def daily_before_sort [OF assms] ..

text \<open>
  Claim C2, as amended. For every non-empty enriched frame, the daily frame has exactly
  one row for every calendar day from the first day of the frame up to, and not
  including, its last day, whether the frame has a row on that day or not. The last day
  is always dropped. The row of a day with records carries the sum, the count and the
  mean of \<open>feed_volume_ml\<close> over the day and the name and ages of the day's first record in
  the order of the index; the row of a day without records has sum 0, count 0 and no
  mean, name or age. The rows that have an \<open>age_in_days\<close> come first, in ascending order
  of it, and the rows without one follow.
\<close>

theorem daily_rows_cover_every_day:
  "df \<noteq> [] \<Longrightarrow>
     distinct (map day (daily_fd df))
     \<and> set (map day (daily_fd df)) = {Min (days_present df) ..< Max (days_present df)}
     \<and> (\<forall>r \<in> set (daily_fd df).
           r = (aggregate_day (day r) (day_bin df (day r)))
                 \<lparr>age_in_months := map_option (\<lambda>a. of_int a / 30.4375)
                                     (first_of age_in_days (day_bin df (day r)))\<rparr>)
     \<and> (\<forall>r \<in> set (daily_fd df). day r \<notin> days_present df \<longrightarrow>
           feeds_per_day r = 0 \<and> daily_feed_volume_ml r = 0 \<and> average_intake_per_feed r = None
           \<and> daily_name r = None \<and> daily_age_in_days r = None \<and> daily_age_in_weeks r = None)
     \<and> (\<forall>r \<in> set (daily_fd df). day r \<in> days_present df \<longrightarrow>
           (\<exists>e es. day_bin df (day r) = e # es
              \<and> daily_name r = Some (name e) \<and> daily_age_in_days r = Some (age_in_days e)
              \<and> daily_age_in_weeks r = Some (age_in_weeks e)
              \<and> daily_feed_volume_ml r = sum_list (map feed_volume_ml (e # es))
              \<and> feeds_per_day r = length (e # es)
              \<and> average_intake_per_feed r
                  = Some (of_int (sum_list (map feed_volume_ml (e # es))) / of_nat (length (e # es)))))
     \<and> daily_fd df = filter (\<lambda>r. daily_age_in_days r \<noteq> None) (daily_fd df)
                      @ filter (\<lambda>r. daily_age_in_days r = None) (daily_fd df)
     \<and> sorted (map (\<lambda>r. the (daily_age_in_days r))
                (filter (\<lambda>r. daily_age_in_days r \<noteq> None) (daily_fd df)))"
proof -
  assume ne: "df \<noteq> []"
  define g where "g = (\<lambda>d. (aggregate_day d (day_bin df d))
                \<lparr>age_in_months := map_option (\<lambda>a. of_int a / 30.4375) (first_of age_in_days (day_bin df d))\<rparr>)"
  define L where "L = [Min (days_present df)..Max (days_present df) - 1]"
  have eq: "daily_fd df = sort_values_by_age (map g L)"
    unfolding g_def L_def by (rule daily_fd_eq [OF ne])
  have day_g: "day (g d) = d" for d
    by (simp add: g_def aggregate_day_def)
  have days: "map day (map g L) = L"
    by (simp add: o_def day_g)
  have c1: "distinct (map day (daily_fd df))"
    unfolding eq by (rule distinct_sort_values_by_age) (unfold days, simp add: L_def)
  have "set (daily_fd df) = g ` set L"
    unfolding eq by (simp add: set_sort_values_by_age)
  then have "set (map day (daily_fd df)) = set L"
    by (simp add: image_image day_g)
  then have c2: "set (map day (daily_fd df)) = {Min (days_present df) ..< Max (days_present df)}"
    unfolding L_def by auto
  have rows: "r = g (day r)" if "r \<in> set (daily_fd df)" for r
    using that unfolding eq set_sort_values_by_age by (auto simp: day_g)
  have c3: "\<forall>r \<in> set (daily_fd df).
           r = (aggregate_day (day r) (day_bin df (day r)))
                 \<lparr>age_in_months := map_option (\<lambda>a. of_int a / 30.4375)
                                     (first_of age_in_days (day_bin df (day r)))\<rparr>"
    using rows unfolding g_def by blast
  have empty: "feeds_per_day (g d) = 0 \<and> daily_feed_volume_ml (g d) = 0 \<and> average_intake_per_feed (g d) = None
           \<and> daily_name (g d) = None \<and> daily_age_in_days (g d) = None \<and> daily_age_in_weeks (g d) = None"
    if "d \<notin> days_present df" for d
    using that by (simp add: g_def aggregate_day_def first_of_def day_bin_Nil [symmetric])
  have full: "\<exists>e es. day_bin df d = e # es
              \<and> daily_name (g d) = Some (name e) \<and> daily_age_in_days (g d) = Some (age_in_days e)
              \<and> daily_age_in_weeks (g d) = Some (age_in_weeks e)
              \<and> daily_feed_volume_ml (g d) = sum_list (map feed_volume_ml (e # es))
              \<and> feeds_per_day (g d) = length (e # es)
              \<and> average_intake_per_feed (g d)
                  = Some (of_int (sum_list (map feed_volume_ml (e # es))) / of_nat (length (e # es)))"
    if "d \<in> days_present df" for d
  proof -
    from that have "day_bin df d \<noteq> []" by (simp add: day_bin_Nil)
    then obtain e es where bin: "day_bin df d = e # es" by (cases "day_bin df d") auto
    show ?thesis
      by (rule exI [of _ e], rule exI [of _ es]) (simp add: g_def aggregate_day_def first_of_def bin)
  qed
  have c4: "\<forall>r \<in> set (daily_fd df). day r \<notin> days_present df \<longrightarrow>
           feeds_per_day r = 0 \<and> daily_feed_volume_ml r = 0 \<and> average_intake_per_feed r = None
           \<and> daily_name r = None \<and> daily_age_in_days r = None \<and> daily_age_in_weeks r = None"
    using rows empty by metis
  have c5: "\<forall>r \<in> set (daily_fd df). day r \<in> days_present df \<longrightarrow>
           (\<exists>e es. day_bin df (day r) = e # es
              \<and> daily_name r = Some (name e) \<and> daily_age_in_days r = Some (age_in_days e)
              \<and> daily_age_in_weeks r = Some (age_in_weeks e)
              \<and> daily_feed_volume_ml r = sum_list (map feed_volume_ml (e # es))
              \<and> feeds_per_day r = length (e # es)
              \<and> average_intake_per_feed r
                  = Some (of_int (sum_list (map feed_volume_ml (e # es))) / of_nat (length (e # es))))"
    using rows full by metis
  have c6: "daily_fd df = filter (\<lambda>r. daily_age_in_days r \<noteq> None) (daily_fd df)
                      @ filter (\<lambda>r. daily_age_in_days r = None) (daily_fd df)"
    unfolding eq by (rule sort_values_by_age_parts(1))
  have c7: "sorted (map (\<lambda>r. the (daily_age_in_days r))
                (filter (\<lambda>r. daily_age_in_days r \<noteq> None) (daily_fd df)))"
    unfolding eq by (rule sort_values_by_age_parts(2))
  from c1 c2 c3 c4 c5 c6 c7 show ?thesis by (intro conjI)
qed

lemma example_gap_days:
  "Min (days_present example_gap) = 19723" "Max (days_present example_gap) = 19726"
  by code_simp+

lemma example_gap_daily:
  "map day (daily_fd example_gap) = [19723, 19725, 19724]"
  "map feeds_per_day (daily_fd example_gap) = [1, 1, 0]"
  by code_simp+

text \<open>Witness for C2: records on 2024-01-01, 2024-01-03 and 2024-01-04; the daily frame
  has the rows of 2024-01-01, 2024-01-02 (without records) and 2024-01-03.\<close>

theorem daily_rows_cover_every_day_witness:
  "example_gap \<noteq> []
   \<and> distinct (map day (daily_fd example_gap))
   \<and> set (map day (daily_fd example_gap)) = {19723 ..< 19726}
   \<and> (\<exists>r \<in> set (daily_fd example_gap). day r = 19724 \<and> feeds_per_day r = 0
         \<and> daily_feed_volume_ml r = 0 \<and> daily_age_in_days r = None)
   \<and> (\<exists>r \<in> set (daily_fd example_gap). day r = 19723 \<and> feeds_per_day r = 1
         \<and> daily_feed_volume_ml r = 850 \<and> daily_age_in_days r = Some 31)"
proof -
  have ne: "example_gap \<noteq> []"
    by (simp add: example_gap_def)
  note inst = daily_rows_cover_every_day [OF ne]
  from inst have dist: "distinct (map day (daily_fd example_gap))"
    and days: "set (map day (daily_fd example_gap))
          = {Min (days_present example_gap) ..< Max (days_present example_gap)}"
    by blast+
  from inst have gaps: "\<forall>r \<in> set (daily_fd example_gap). day r \<notin> days_present example_gap \<longrightarrow>
           feeds_per_day r = 0 \<and> daily_feed_volume_ml r = 0 \<and> average_intake_per_feed r = None
           \<and> daily_name r = None \<and> daily_age_in_days r = None \<and> daily_age_in_weeks r = None"
    by blast
  from inst have full: "\<forall>r \<in> set (daily_fd example_gap). day r \<in> days_present example_gap \<longrightarrow>
           (\<exists>e es. day_bin example_gap (day r) = e # es
              \<and> daily_name r = Some (name e) \<and> daily_age_in_days r = Some (age_in_days e)
              \<and> daily_age_in_weeks r = Some (age_in_weeks e)
              \<and> daily_feed_volume_ml r = sum_list (map feed_volume_ml (e # es))
              \<and> feeds_per_day r = length (e # es)
              \<and> average_intake_per_feed r
                  = Some (of_int (sum_list (map feed_volume_ml (e # es))) / of_nat (length (e # es))))"
    by blast
  have absent: "19724 \<notin> days_present example_gap" and present: "19723 \<in> days_present example_gap"
    by code_simp+
  have bin: "map feed_volume_ml (day_bin example_gap 19723) = [850]"
    "map age_in_days (day_bin example_gap 19723) = [31]"
    by code_simp+
  have "(19724::int) \<in> {19723 ..< 19726}" and "(19723::int) \<in> {19723 ..< 19726}"
    by simp_all
  then have in0: "19724 \<in> day ` set (daily_fd example_gap)"
    and in1: "19723 \<in> day ` set (daily_fd example_gap)"
    using days unfolding example_gap_days by simp_all
  from in0 obtain r0 where r0: "r0 \<in> set (daily_fd example_gap)" "day r0 = 19724"
    by (metis imageE)
  with gaps absent have w0: "feeds_per_day r0 = 0 \<and> daily_feed_volume_ml r0 = 0 \<and> daily_age_in_days r0 = None"
    by simp
  from in1 obtain r1 where r1: "r1 \<in> set (daily_fd example_gap)" "day r1 = 19723"
    by (metis imageE)
  with full present bin have w1: "feeds_per_day r1 = 1 \<and> daily_feed_volume_ml r1 = 850
      \<and> daily_age_in_days r1 = Some 31"
    by fastforce
  from ne dist days r0 w0 r1 w1 show ?thesis
    unfolding example_gap_days by blast
qed

text \<open>Counterexample to C2 as stated (one row per calendar day present in the frame,
  the last excepted): the daily frame of these records has a row for 2024-01-02, a day
  on which the frame has no record, and that row is the last one.\<close>

theorem daily_row_for_absent_day:
  "19724 \<in> set (map day (daily_fd example_gap))
   \<and> 19724 \<notin> days_present example_gap
   \<and> set (map day (daily_fd example_gap))
       \<noteq> days_present example_gap - {Max (days_present example_gap)}
   \<and> map day (daily_fd example_gap) = [19723, 19725, 19724]
   \<and> map feeds_per_day (daily_fd example_gap) = [1, 1, 0]"
proof -
  have absent: "19724 \<notin> days_present example_gap"
    by code_simp
  have listed: "19724 \<in> set (map day (daily_fd example_gap))"
    unfolding example_gap_daily by simp
  from absent listed have "set (map day (daily_fd example_gap))
       \<noteq> days_present example_gap - {Max (days_present example_gap)}"
    by blast
  with absent listed example_gap_daily show ?thesis by blast
qed

end
